theory Spec2Isabelle
  imports Main
begin

section \<open>Strings\<close>

text \<open>
  A JavaScript string is a sequence of UTF-16 code units. The model uses \<^typ>\<open>string\<close>:
  a \<^typ>\<open>char\<close> stands for one code unit below 256, read with \<^term>\<open>of_char\<close>.
  Every pattern and regular expression of the code modelled below mentions code units
  below 128 only; \<open>length\<close> is the \<open>.length\<close> of the source and \<open>take n\<close> is
  \<open>.substring(0, n)\<close>.
\<close>

fun startsWith :: "string \<Rightarrow> string \<Rightarrow> bool" where
  "startsWith s [] = True"
| "startsWith [] (p # ps) = False"
| "startsWith (c # cs) (p # ps) = (c = p \<and> startsWith cs ps)"

fun includes_str :: "string \<Rightarrow> string \<Rightarrow> bool" where
  "includes_str [] pat = startsWith [] pat"
| "includes_str (c # cs) pat = (startsWith (c # cs) pat \<or> includes_str cs pat)"

definition endsWith :: "string \<Rightarrow> string \<Rightarrow> bool" where
  "endsWith s pat = startsWith (rev s) (rev pat)"

text \<open>\<open>String.prototype.toLowerCase\<close> on code units below 256: A-Z and the Latin-1
  capitals U+00C0 to U+00DE (without the multiplication sign U+00D7) move up by 32.\<close>

definition toLowerCase_char :: "char \<Rightarrow> char" where
  "toLowerCase_char c =
     (let n = (of_char c :: nat) in
      if (65 \<le> n \<and> n \<le> 90) \<or> (192 \<le> n \<and> n \<le> 222 \<and> n \<noteq> 215)
      then char_of (n + 32) else c)"

definition toLowerCase :: "string \<Rightarrow> string" where
  "toLowerCase s = map toLowerCase_char s"

section \<open>Response validation (src/server/ai/gemini.ts)\<close>

record analysis =
  description :: string
  summary :: string

text \<open>\<open>sanitizeText\<close> deletes every match of the character class
  \<^verbatim>\<open>[\x00-\x08\x0B-\x0C\x0E-\x1F\x7F]\<close>.\<close>

definition strippedBySanitize :: "char \<Rightarrow> bool" where
  "strippedBySanitize c =
     (let n = (of_char c :: nat) in
      n \<le> 8 \<or> (11 \<le> n \<and> n \<le> 12) \<or> (14 \<le> n \<and> n \<le> 31) \<or> n = 127)"

definition sanitizeText :: "string \<Rightarrow> string" where
  "sanitizeText text = filter (\<lambda>c. \<not> strippedBySanitize c) text"

text \<open>The control characters of ASCII: U+0000 to U+001F and U+007F. Tab is U+0009,
  newline (line feed) U+000A, carriage return U+000D.\<close>

definition isControlChar :: "char \<Rightarrow> bool" where
  "isControlChar c = ((of_char c :: nat) < 32 \<or> (of_char c :: nat) = 127)"

definition TAB :: char where "TAB = CHR 0x09"
definition LF :: char where "LF = CHR 0x0A"
definition CR :: char where "CR = CHR 0x0D"

text \<open>The sanitization as the specification words it: every control character except
  newline and tab goes, all other characters stay in order.\<close>

definition spec_sanitize :: "string \<Rightarrow> string" where
  "spec_sanitize text = filter (\<lambda>c. c = LF \<or> c = TAB \<or> \<not> isControlChar c) text"


text \<open>\<open>String.prototype.trim\<close>: the white space and line terminators of ECMAScript
  below 256 are U+0009 to U+000D, U+0020 and U+00A0.\<close>

definition isWhiteSpace :: "char \<Rightarrow> bool" where
  "isWhiteSpace c =
     (let n = (of_char c :: nat) in (9 \<le> n \<and> n \<le> 13) \<or> n = 32 \<or> n = 160)"

definition trim :: "string \<Rightarrow> string" where
  "trim s = rev (dropWhile isWhiteSpace (rev (dropWhile isWhiteSpace s)))"

text \<open>\<open>s.replace(/PAT\n?/g, '')\<close> for a literal, non-empty \<open>PAT\<close>: every match, found
  from left to right, goes together with one following newline.\<close>

function removeFences :: "string \<Rightarrow> string \<Rightarrow> string" where
  "removeFences pat s =
     (if s = [] \<or> pat = [] then s
      else if startsWith s pat
      then removeFences pat
             (if startsWith (drop (length pat) s) [LF]
              then tl (drop (length pat) s) else drop (length pat) s)
      else hd s # removeFences pat (tl s))"
  by pat_completeness auto
termination
  by (relation "measure (\<lambda>(pat, s). length s)") auto

declare removeFences.simps [simp del]

definition FENCE :: string where
  "FENCE = [CHR 0x60, CHR 0x60, CHR 0x60]"

definition cleanFences :: "string \<Rightarrow> string" where
  "cleanFences text =
     (let cleanText = trim text in
      if startsWith cleanText (FENCE @ ''json'')
      then removeFences FENCE (removeFences (FENCE @ ''json'') cleanText)
      else if startsWith cleanText FENCE then removeFences FENCE cleanText
      else cleanText)"

text \<open>What \<open>JSON.parse\<close> gives: it throws a SyntaxError, or returns \<open>null\<close> (reading a
  property of it throws a TypeError), or returns a value whose properties
  \<open>description\<close> and \<open>summary\<close> read as the two values given (\<open>undefined\<close> when absent).
  \<open>JSON.parse\<close> itself is a library function and a parameter of the model.\<close>

datatype js_value = JUndefined | JNull | JBool bool | JNumber int | JString string | JObject

datatype json_root = JsonSyntaxError | JsonNull | JsonValue js_value js_value

fun falsy :: "js_value \<Rightarrow> bool" where
  "falsy JUndefined = True"
| "falsy JNull = True"
| "falsy (JBool b) = (\<not> b)"
| "falsy (JNumber n) = (n = 0)"
| "falsy (JString s) = (s = [])"
| "falsy JObject = False"

definition INVALID_RESPONSE :: string where
  "INVALID_RESPONSE = ''Invalid response format from Gemini API''"

text \<open>\<open>parseGeminiResponse\<close>: every exception of the body (SyntaxError, the missing-field
  Error, the TypeError of \<open>.substring\<close> on a value that is not a string) is caught and
  replaced by one Error, \<open>Inl INVALID_RESPONSE\<close>.\<close>

definition parseGeminiResponse :: "(string \<Rightarrow> json_root) \<Rightarrow> string \<Rightarrow> string + analysis" where
  "parseGeminiResponse jsonParse text =
     (case jsonParse (cleanFences text) of
        JsonSyntaxError \<Rightarrow> Inl INVALID_RESPONSE
      | JsonNull \<Rightarrow> Inl INVALID_RESPONSE
      | JsonValue d s \<Rightarrow>
          if falsy d \<or> falsy s then Inl INVALID_RESPONSE
          else (case (d, s) of
                  (JString ds, JString ss) \<Rightarrow>
                    Inr \<lparr>description = sanitizeText (take 100 ds),
                         summary = sanitizeText (take 500 ss)\<rparr>
                | _ \<Rightarrow> Inl INVALID_RESPONSE))"

text \<open>The validator as the specification words it: sanitize first, truncate after.\<close>

definition spec_validate :: "string \<Rightarrow> string \<Rightarrow> analysis" where
  "spec_validate ds ss =
     \<lparr>description = take 100 (sanitizeText ds), summary = take 500 (sanitizeText ss)\<rparr>"


section \<open>Retry classification and fallback (src/server/ai/gemini.ts)\<close>

text \<open>A thrown value is represented by its message, the string that
  \<open>error instanceof Error ? error.message : String(error)\<close> reads.\<close>

definition retryablePatterns :: "string list" where
  "retryablePatterns =
     [''timeout'', ''network'', ''econnreset'', ''econnrefused'', ''etimedout'',
      ''socket hang up'', ''503'', ''429'', ''temporarily unavailable'']"

definition isRetryableError :: "string \<Rightarrow> bool" where
  "isRetryableError errorMessage =
     list_ex (\<lambda>pattern. includes_str (toLowerCase errorMessage) pattern) retryablePatterns"

datatype file_kind = Image | Pdf

definition FALLBACK_SUMMARY :: string where
  "FALLBACK_SUMMARY = ''Auto-analysis unavailable. Please add details manually.''"

definition createFallbackResponse :: "string \<Rightarrow> file_kind \<Rightarrow> string \<Rightarrow> analysis" where
  "createFallbackResponse fileName fileType errorMessage =
     \<lparr>description = (if fileType = Pdf then ''PDF'' else ''Image'') @ '' - '' @ fileName,
      summary = FALLBACK_SUMMARY\<rparr>"

definition detectFileType :: "string \<Rightarrow> string \<Rightarrow> file_kind" where
  "detectFileType fileData fileType =
     (let normalizedType = toLowerCase fileType in
      if includes_str normalizedType ''pdf'' \<or> includes_str normalizedType ''application/pdf''
      then Pdf
      else if includes_str normalizedType ''image'' \<or> includes_str normalizedType ''jpeg''
              \<or> includes_str normalizedType ''jpg'' \<or> includes_str normalizedType ''png''
              \<or> includes_str normalizedType ''gif'' \<or> includes_str normalizedType ''webp''
      then Image
      else if startsWith fileData ''data:'' \<and> startsWith fileData ''data:application/pdf''
      then Pdf
      else if startsWith fileData ''data:'' \<and> startsWith fileData ''data:image/''
      then Image
      else if endsWith normalizedType ''.pdf'' then Pdf
      else if endsWith normalizedType ''.jpg'' \<or> endsWith normalizedType ''.jpeg''
              \<or> endsWith normalizedType ''.png'' \<or> endsWith normalizedType ''.gif''
              \<or> endsWith normalizedType ''.webp''
      then Image
      else Image)"

section \<open>The AI call with retries (src/server/ai/gemini.ts)\<close>

text \<open>
  The external service is an oracle. \<open>generateContent env n\<close> is what the \<open>n\<close>-th call
  of one analysis (\<open>n\<close> is \<open>retryCount\<close>) comes to after the race against the 5 second
  timer and after \<open>response.text()\<close>: it throws with a message (\<open>'API timeout'\<close> when the
  timer wins), or it yields the text of the response. The prompt and the payload do not
  influence the control flow and are not modelled. \<open>apiKey\<close> is the value stored under
  \<open>config:gemini_api_key\<close>.
\<close>

datatype call_outcome = CallRejects string | CallResolves string

record gemini_env =
  apiKey :: "string option"
  generateContent :: "nat \<Rightarrow> call_outcome"
  jsonParse :: "string \<Rightarrow> json_root"

text \<open>The effects a request has, in the order they happen. \<open>FallbackCreated\<close> is
  the log record that \<open>createFallbackResponse\<close> writes each time it runs.\<close>

datatype event =
    GeminiCall nat
  | Sleep nat
  | FallbackCreated
  | RedisIncrBy string int
  | RedisExpire string nat
  | RedisSet string
  | AdapterUpload
  | AdapterDelete string

definition MAX_RETRIES :: nat where
  "MAX_RETRIES = 2"

text \<open>\<open>getModel\<close> throws when \<open>initializeGeminiClient\<close> finds no key (absent or empty).\<close>

definition getModel :: "gemini_env \<Rightarrow> string + unit" where
  "getModel env =
     (case apiKey env of
        None \<Rightarrow> Inl ''Gemini API key not configured''
      | Some k \<Rightarrow> if k = [] then Inl ''Gemini API key not configured'' else Inr ())"

text \<open>The \<open>try\<close> block of \<open>analyzeImage\<close> and of \<open>analyzePDF\<close>: \<open>Inl\<close> is the message of
  the exception that reaches the \<open>catch\<close>.\<close>

definition attempt :: "gemini_env \<Rightarrow> nat \<Rightarrow> (string + analysis) \<times> event list" where
  "attempt env retryCount =
     (case getModel env of
        Inl msg \<Rightarrow> (Inl msg, [])
      | Inr _ \<Rightarrow>
          (case generateContent env retryCount of
             CallRejects msg \<Rightarrow> (Inl msg, [GeminiCall retryCount])
           | CallResolves text \<Rightarrow>
               (parseGeminiResponse (jsonParse env) text, [GeminiCall retryCount])))"

function analyzeImage ::
  "gemini_env \<Rightarrow> string \<Rightarrow> string \<Rightarrow> nat \<Rightarrow> (string + analysis) \<times> event list" where
  "analyzeImage env base64Image fileName retryCount =
     (case fst (attempt env retryCount) of
        Inr parsed \<Rightarrow> (Inr parsed, snd (attempt env retryCount))
      | Inl msg \<Rightarrow>
          if isRetryableError msg \<and> retryCount < MAX_RETRIES
          then (fst (analyzeImage env base64Image fileName (retryCount + 1)),
                snd (attempt env retryCount) @ [Sleep (2 ^ retryCount * 1000)]
                  @ snd (analyzeImage env base64Image fileName (retryCount + 1)))
          else (Inr (createFallbackResponse fileName Image msg),
                snd (attempt env retryCount) @ [FallbackCreated]))"
  by pat_completeness auto
termination
  by (relation "measure (\<lambda>(env, b, f, n). MAX_RETRIES - n)") auto

declare analyzeImage.simps [simp del]

function analyzePDF ::
  "gemini_env \<Rightarrow> string \<Rightarrow> string \<Rightarrow> nat \<Rightarrow> (string + analysis) \<times> event list" where
  "analyzePDF env base64PDF fileName retryCount =
     (case fst (attempt env retryCount) of
        Inr parsed \<Rightarrow> (Inr parsed, snd (attempt env retryCount))
      | Inl msg \<Rightarrow>
          if isRetryableError msg \<and> retryCount < MAX_RETRIES
          then (fst (analyzePDF env base64PDF fileName (retryCount + 1)),
                snd (attempt env retryCount) @ [Sleep (2 ^ retryCount * 1000)]
                  @ snd (analyzePDF env base64PDF fileName (retryCount + 1)))
          else (Inr (createFallbackResponse fileName Pdf msg),
                snd (attempt env retryCount) @ [FallbackCreated]))"
  by pat_completeness auto
termination
  by (relation "measure (\<lambda>(env, b, f, n). MAX_RETRIES - n)") auto

declare analyzePDF.simps [simp del]

text \<open>\<open>analyzeDocument\<close>: the \<open>try\<close> block routes on the detected kind (the third branch,
  \<open>throw new Error('Unsupported file type')\<close>, has no value of \<^typ>\<open>file_kind\<close> to
  reach it); the \<open>catch\<close> turns an exception into the fallback response.\<close>

definition analyzeDocument ::
  "gemini_env \<Rightarrow> string \<Rightarrow> string \<Rightarrow> string \<Rightarrow> (string + analysis) \<times> event list" where
  "analyzeDocument env fileData fileType fileName =
     (let detectedType = detectFileType fileData fileType;
          r = (if detectedType = Pdf then analyzePDF env fileData fileName 0
               else analyzeImage env fileData fileName 0)
      in case fst r of
           Inr result \<Rightarrow> (Inr result, snd r)
         | Inl msg \<Rightarrow>
             (Inr (createFallbackResponse fileName
                     (if detectFileType fileData fileType = Pdf then Pdf else Image) msg),
              snd r @ [FallbackCreated]))"

section \<open>Storage adapters and the factory (src/server/storage)\<close>

datatype storage_error_code =
    UPLOAD_FAILED | DOWNLOAD_FAILED | DELETE_FAILED | NOT_FOUND | UNAUTHORIZED
  | CONFIGURATION_ERROR | SIZE_LIMIT_EXCEEDED | NETWORK_ERROR

datatype storage_error = StorageError storage_error_code string

record s3_config =
  region :: string
  accessKeyId :: string
  secretAccessKey :: string
  bucket :: string

record pg_config =
  connectionString :: string
  ssl :: bool
  serverBaseUrl :: string

text \<open>\<open>StorageConfig\<close>. The provider is a string: \<open>loadConfiguration\<close> casts whatever
  \<open>STORAGE_PROVIDER\<close> holds.\<close>

record storage_config =
  provider :: string
  s3 :: "s3_config option"
  postgresql :: "pg_config option"

record app_config =
  ac_storageProvider :: string
  ac_awsRegion :: "string option"
  ac_awsAccessKeyId :: "string option"
  ac_awsSecretAccessKey :: "string option"
  ac_awsS3Bucket :: "string option"
  ac_postgresqlConnectionString :: "string option"
  ac_postgresqlSsl :: "bool option"
  ac_serverBaseUrl :: "string option"

text \<open>The variables of \<open>process.env\<close> that the storage module reads.\<close>

record process_env =
  STORAGE_PROVIDER :: "string option"
  AWS_REGION :: "string option"
  AWS_ACCESS_KEY_ID :: "string option"
  AWS_SECRET_ACCESS_KEY :: "string option"
  AWS_S3_BUCKET :: "string option"
  POSTGRESQL_CONNECTION_STRING :: "string option"
  POSTGRESQL_SSL :: "string option"
  SERVER_BASE_URL :: "string option"

text \<open>\<open>v || d\<close> on an optional string: \<open>undefined\<close> and the empty string are falsy.\<close>

definition orElse :: "string option \<Rightarrow> string \<Rightarrow> string" where
  "orElse v d = (case v of None \<Rightarrow> d | Some x \<Rightarrow> if x = [] then d else x)"

text \<open>The adapters, by the fields that decide their behaviour. \<open>S3StorageAdapter\<close> holds
  region, bucket name and \<open>configured\<close>; \<open>PostgreSQLStorageAdapter\<close> holds the base URL,
  \<open>isInitialized\<close> and \<open>configured\<close>.\<close>

datatype adapter =
    S3StorageAdapter string string bool
  | PostgreSQLStorageAdapter string bool bool

definition new_S3StorageAdapter :: "s3_config option \<Rightarrow> process_env \<Rightarrow> adapter" where
  "new_S3StorageAdapter cfg env =
     (case cfg of
        Some c \<Rightarrow>
          S3StorageAdapter (region c) (bucket c)
            (accessKeyId c \<noteq> [] \<and> secretAccessKey c \<noteq> [] \<and> bucket c \<noteq> [])
      | None \<Rightarrow>
          S3StorageAdapter (orElse (AWS_REGION env) ''us-east-1'') (orElse (AWS_S3_BUCKET env) [])
            (orElse (AWS_ACCESS_KEY_ID env) [] \<noteq> [] \<and> orElse (AWS_SECRET_ACCESS_KEY env) [] \<noteq> []
               \<and> orElse (AWS_S3_BUCKET env) [] \<noteq> []))"

definition new_PostgreSQLStorageAdapter :: "pg_config option \<Rightarrow> process_env \<Rightarrow> adapter" where
  "new_PostgreSQLStorageAdapter cfg env =
     (case cfg of
        Some c \<Rightarrow>
          (let configured = (connectionString c \<noteq> [] \<and> serverBaseUrl c \<noteq> [])
           in PostgreSQLStorageAdapter (serverBaseUrl c) configured configured)
      | None \<Rightarrow>
          (let configured = (orElse (POSTGRESQL_CONNECTION_STRING env) [] \<noteq> []
                              \<and> orElse (SERVER_BASE_URL env) [] \<noteq> [])
           in PostgreSQLStorageAdapter (orElse (SERVER_BASE_URL env) []) configured configured))"

fun isConfigured :: "adapter \<Rightarrow> bool" where
  "isConfigured (S3StorageAdapter r b configured) = configured"
| "isConfigured (PostgreSQLStorageAdapter u isInitialized configured) = configured"

text \<open>What the backend does with a request that reaches it.\<close>

datatype backend_outcome = BackendOk | BackendNoRow | BackendFails

fun adapter_delete :: "adapter \<Rightarrow> (string \<Rightarrow> backend_outcome) \<Rightarrow> string \<Rightarrow> storage_error + unit" where
  "adapter_delete (S3StorageAdapter r b configured) backend storageKey =
     (if \<not> configured
      then Inl (StorageError CONFIGURATION_ERROR ''S3 storage is not properly configured'')
      else (case backend storageKey of
              BackendFails \<Rightarrow> Inl (StorageError DELETE_FAILED ''Failed to delete document from S3'')
            | _ \<Rightarrow> Inr ()))"
| "adapter_delete (PostgreSQLStorageAdapter u isInitialized configured) backend storageKey =
     (if \<not> isInitialized
      then Inl (StorageError CONFIGURATION_ERROR ''PostgreSQL adapter is not properly configured'')
      else (case backend storageKey of
              BackendFails \<Rightarrow>
                Inl (StorageError DELETE_FAILED ''Failed to delete document from PostgreSQL'')
            | BackendNoRow \<Rightarrow>
                Inl (StorageError NOT_FOUND ''Document not found in PostgreSQL storage'')
            | BackendOk \<Rightarrow> Inr ()))"

definition loadConfigurationFromAppConfig :: "app_config \<Rightarrow> storage_config" where
  "loadConfigurationFromAppConfig appConfig =
     (if ac_storageProvider appConfig = ''s3''
      then \<lparr>provider = ac_storageProvider appConfig,
            s3 = Some \<lparr>region = orElse (ac_awsRegion appConfig) ''us-east-1'',
                       accessKeyId = orElse (ac_awsAccessKeyId appConfig) [],
                       secretAccessKey = orElse (ac_awsSecretAccessKey appConfig) [],
                       bucket = orElse (ac_awsS3Bucket appConfig) []\<rparr>,
            postgresql = None\<rparr>
      else if ac_storageProvider appConfig = ''postgresql''
      then \<lparr>provider = ac_storageProvider appConfig, s3 = None,
            postgresql = Some \<lparr>connectionString = orElse (ac_postgresqlConnectionString appConfig) [],
                               ssl = (case ac_postgresqlSsl appConfig of None \<Rightarrow> False | Some b \<Rightarrow> b),
                               serverBaseUrl = orElse (ac_serverBaseUrl appConfig) []\<rparr>\<rparr>
      else \<lparr>provider = ac_storageProvider appConfig, s3 = None, postgresql = None\<rparr>)"

definition loadConfiguration :: "process_env \<Rightarrow> storage_config" where
  "loadConfiguration env =
     (let provider = orElse (STORAGE_PROVIDER env) ''s3'' in
      if provider = ''s3''
      then \<lparr>provider = provider,
            s3 = Some \<lparr>region = orElse (AWS_REGION env) ''us-east-1'',
                       accessKeyId = orElse (AWS_ACCESS_KEY_ID env) [],
                       secretAccessKey = orElse (AWS_SECRET_ACCESS_KEY env) [],
                       bucket = orElse (AWS_S3_BUCKET env) []\<rparr>,
            postgresql = None\<rparr>
      else if provider = ''postgresql''
      then \<lparr>provider = provider, s3 = None,
            postgresql = Some \<lparr>connectionString = orElse (POSTGRESQL_CONNECTION_STRING env) [],
                               ssl = (POSTGRESQL_SSL env = Some ''true''),
                               serverBaseUrl = orElse (SERVER_BASE_URL env) []\<rparr>\<rparr>
      else \<lparr>provider = provider, s3 = None, postgresql = None\<rparr>)"

fun join :: "string \<Rightarrow> string list \<Rightarrow> string" where
  "join sep [] = []"
| "join sep [x] = x"
| "join sep (x # y # ys) = x @ sep @ join sep (y # ys)"

text \<open>\<open>requiredVars.filter((v) => !v.value)\<close>, then the names of what is left.\<close>

definition missingNames :: "(string \<times> string option) list \<Rightarrow> string list" where
  "missingNames requiredVars = map fst (filter (\<lambda>v. orElse (snd v) [] = []) requiredVars)"

definition validateS3Configuration :: "s3_config option \<Rightarrow> storage_error + unit" where
  "validateS3Configuration s3Config =
     (let missing = missingNames
            [(''AWS_ACCESS_KEY_ID'', map_option accessKeyId s3Config),
             (''AWS_SECRET_ACCESS_KEY'', map_option secretAccessKey s3Config),
             (''AWS_S3_BUCKET'', map_option bucket s3Config)]
      in if length missing > 0
         then Inl (StorageError CONFIGURATION_ERROR
                     (''Missing required S3 configuration: '' @ join '', '' missing))
         else Inr ())"

definition validatePostgreSQLConfiguration :: "pg_config option \<Rightarrow> storage_error + unit" where
  "validatePostgreSQLConfiguration pgConfig =
     (let missing = missingNames
            [(''POSTGRESQL_CONNECTION_STRING'', map_option connectionString pgConfig),
             (''SERVER_BASE_URL'', map_option serverBaseUrl pgConfig)]
      in if length missing > 0
         then Inl (StorageError CONFIGURATION_ERROR
                     (''Missing required PostgreSQL configuration: '' @ join '', '' missing))
         else Inr ())"

definition validateConfiguration :: "storage_config \<Rightarrow> storage_error + unit" where
  "validateConfiguration config =
     (if provider config = []
      then Inl (StorageError CONFIGURATION_ERROR
                  ''STORAGE_PROVIDER environment variable is required'')
      else if provider config \<notin> set [''s3'', ''postgresql'']
      then Inl (StorageError CONFIGURATION_ERROR
                  (''Invalid storage provider: '' @ provider config
                     @ ''. Must be '' @ [CHR 0x27] @ ''s3'' @ [CHR 0x27] @ '' or ''
                     @ [CHR 0x27] @ ''postgresql'' @ [CHR 0x27]))
      else if provider config = ''s3'' then validateS3Configuration (s3 config)
      else if provider config = ''postgresql''
      then validatePostgreSQLConfiguration (postgresql config)
      else Inr ())"

definition createAdapter :: "storage_config \<Rightarrow> process_env \<Rightarrow> storage_error + adapter" where
  "createAdapter config env =
     (if provider config = ''s3'' then Inr (new_S3StorageAdapter (s3 config) env)
      else if provider config = ''postgresql''
      then Inr (new_PostgreSQLStorageAdapter (postgresql config) env)
      else Inl (StorageError CONFIGURATION_ERROR
                  (''Unknown storage provider: '' @ provider config)))"

text \<open>The static fields of \<open>StorageFactory\<close>. \<open>constructed\<close> is not a field of the source:
  it counts the adapter objects that \<open>createAdapter\<close> has built so far.\<close>

record factory =
  f_instance :: "adapter option"
  f_config :: "storage_config option"
  constructed :: nat

definition initial_factory :: factory where
  "initial_factory = \<lparr>f_instance = None, f_config = None, constructed = 0\<rparr>"

definition getAdapter ::
  "factory \<Rightarrow> app_config option \<Rightarrow> process_env \<Rightarrow> (storage_error + adapter) \<times> factory" where
  "getAdapter f appConfig env =
     (case f_instance f of
        Some a \<Rightarrow> (Inr a, f)
      | None \<Rightarrow>
          (let cfg = (case appConfig of
                        Some ac \<Rightarrow> loadConfigurationFromAppConfig ac
                      | None \<Rightarrow> loadConfiguration env);
               f1 = f\<lparr>f_config := Some cfg\<rparr>
           in case validateConfiguration cfg of
                Inl e \<Rightarrow> (Inl e, f1)
              | Inr _ \<Rightarrow>
                  (case createAdapter cfg env of
                     Inl e \<Rightarrow> (Inl e, f1)
                   | Inr a \<Rightarrow>
                       (let f2 = f1\<lparr>f_instance := Some a, constructed := constructed f1 + 1\<rparr>
                        in if \<not> isConfigured a
                           then (Inl (StorageError CONFIGURATION_ERROR
                                        (''Storage provider '' @ provider cfg
                                           @ '' is not properly configured. Check configuration in Redis.'')),
                                 f2)
                           else (Inr a, f2)))))"

text \<open>\<open>StorageFactory.reset()\<close>, which the source keeps for tests: it forgets the instance
  and the configuration.\<close>

definition reset :: "factory \<Rightarrow> factory" where
  "reset f = f\<lparr>f_instance := None, f_config := None\<rparr>"

text \<open>A process calls \<open>getAdapter\<close> again and again, each time with its own argument
  and with the environment of that moment; \<open>run_getAdapter\<close> collects the results
  (\<open>reset\<close> is not among the calls).\<close>

fun run_getAdapter ::
  "factory \<Rightarrow> (app_config option \<times> process_env) list
     \<Rightarrow> (storage_error + adapter) list \<times> factory" where
  "run_getAdapter f [] = ([], f)"
| "run_getAdapter f (c # rest) =
     (let r = getAdapter f (fst c) (snd c); rs = run_getAdapter (snd r) rest
      in (fst r # fst rs, snd rs))"

definition isConfigurationError :: "storage_error \<Rightarrow> bool" where
  "isConfigurationError e = (case e of StorageError code msg \<Rightarrow> code = CONFIGURATION_ERROR)"

section \<open>The server state (src/server/index.ts)\<close>

datatype storage_provider = Redis | S3 | PostgreSQL

text \<open>\<open>Document\<close> of src/shared/types/api.ts. An absent optional field is \<open>None\<close>.\<close>

record document =
  doc_id :: string
  doc_fileName :: "string option"
  doc_fileType :: string
  doc_fileSize :: nat
  doc_imageData :: "string option"
  doc_description :: string
  doc_notes :: string
  doc_timestamp :: nat
  doc_storageProvider :: storage_provider
  doc_storageKey :: "string option"

text \<open>
  The Redis store, one map for each family of keys that the server uses; the families
  have different prefixes. \<open>counters\<close> holds the keys \<open>ratelimit:analysis:USER:DAY\<close>,
  written by \<open>incrBy\<close> only and read with \<open>parseInt\<close>; \<open>cache\<close> holds the keys
  \<open>analysis:HASH\<close>, \<open>documents\<close> the keys \<open>docs:POST:list\<close> (both are JSON in the source,
  written by \<open>JSON.stringify\<close> and read back by \<open>JSON.parse\<close>); \<open>expiry\<close> is the time to
  live, in seconds, last set by \<open>redis.expire\<close>; \<open>gemini_api_key\<close> is the key
  \<open>config:gemini_api_key\<close>. Redis operations themselves do not fail in the model.
\<close>

record redis_store =
  counters :: "string \<rightharpoonup> int"
  cache :: "string \<rightharpoonup> analysis"
  documents :: "string \<rightharpoonup> document list"
  expiry :: "string \<rightharpoonup> nat"
  gemini_api_key :: "string option"

record server =
  redis :: redis_store
  factory :: factory
  procEnv :: process_env

datatype response =
    ErrorResponse nat string
  | AnalysisResponse string string
  | DocumentResponse document
  | SuccessResponse

text \<open>\<open>!v\<close> on an optional string is \<open>\<not> truthy v\<close>.\<close>

definition truthy :: "string option \<Rightarrow> bool" where
  "truthy v = (case v of None \<Rightarrow> False | Some s \<Rightarrow> s \<noteq> [])"

text \<open>\<open>fileData.includes(',') ? fileData.split(',')[1] : fileData\<close>\<close>

definition base64Data_of :: "string \<Rightarrow> string" where
  "base64Data_of fileData =
     (if includes_str fileData '','' 
      then takeWhile (\<lambda>c. c \<noteq> CHR '','') (drop 1 (dropWhile (\<lambda>c. c \<noteq> CHR '','') fileData))
      else fileData)"

definition docsOf :: "redis_store \<Rightarrow> string \<Rightarrow> document list" where
  "docsOf r key = (case documents r key of None \<Rightarrow> [] | Some ds \<Rightarrow> ds)"

section \<open>POST /api/documents/add\<close>

record add_body =
  req_fileName :: "string option"
  req_fileType :: "string option"
  req_fileData :: "string option"
  req_description :: "string option"
  req_notes :: "string option"

definition MAX_FILE_SIZE :: nat where
  "MAX_FILE_SIZE = 500 * 1024"

definition docsKey :: "string \<Rightarrow> string" where
  "docsKey postId = ''docs:'' @ postId @ '':list''"

text \<open>\<open>documents.unshift(document); if (documents.length > 20) documents.pop();\<close>\<close>

definition unshift_bounded :: "document \<Rightarrow> document list \<Rightarrow> document list" where
  "unshift_bounded d ds = (if length (d # ds) > 20 then butlast (d # ds) else d # ds)"

text \<open>
  The parameters stand for what the handler reads from outside: \<open>decodedLength s\<close> is
  \<open>Buffer.from(s, 'base64').length\<close>, \<open>documentId\<close> the identifier made of \<open>Date.now()\<close>
  and \<open>Math.random()\<close>, \<open>now\<close> is \<open>Date.now()\<close>, \<open>postId\<close> comes from the Devvit context.
  A request without \<open>fileType\<close> raises a TypeError at \<open>fileType.includes\<close>, which the
  outer \<open>catch\<close> answers with status 500.
\<close>

text \<open>\<open>(fileSize / 1024).toFixed(2)\<close>. The quotient by 1024 is exact in a double, and
  \<open>toFixed(2)\<close> takes the integer \<open>h\<close> nearest to a hundred times the value, the larger
  one at a tie: \<open>h\<close> is the floor of \<open>fileSize * 100 / 1024 + 1 / 2\<close>. The digits of
  \<open>h\<close> are printed with the point before the last two.\<close>

definition digitChar :: "nat \<Rightarrow> char" where
  "digitChar n = char_of (48 + n)"

function showNat :: "nat \<Rightarrow> string" where
  "showNat n = (if n < 10 then [digitChar n] else showNat (n div 10) @ [digitChar (n mod 10)])"
  by pat_completeness auto
termination
  by (relation "measure (\<lambda>n. n)") auto

declare showNat.simps [simp del]

definition toFixed2_KB :: "nat \<Rightarrow> string" where
  "toFixed2_KB fileSize =
     (let h = (50 * fileSize + 256) div 512
      in showNat (h div 100) @ ''.'' @ [digitChar ((h div 10) mod 10), digitChar (h mod 10)])"

definition sizeMessage :: "nat \<Rightarrow> string" where
  "sizeMessage fileSize =
     ''File size exceeds maximum limit of 500KB. Current size: '' @ toFixed2_KB fileSize @ ''KB''"

definition newDocument ::
  "string \<Rightarrow> nat \<Rightarrow> add_body \<Rightarrow> string \<Rightarrow> string \<Rightarrow> string \<Rightarrow> nat \<Rightarrow> document" where
  "newDocument documentId now body fileType fileData descr fileSize =
     \<lparr>doc_id = documentId, doc_fileName = req_fileName body,
      doc_fileType = fileType, doc_fileSize = fileSize,
      doc_imageData = Some fileData, doc_description = descr,
      doc_notes = orElse (req_notes body) [], doc_timestamp = now,
      doc_storageProvider = Redis, doc_storageKey = None\<rparr>"

text \<open>Read the list, \<open>unshift\<close>, \<open>pop\<close> when longer than 20, write the list back.\<close>

definition saveDocument :: "string \<Rightarrow> document \<Rightarrow> server \<Rightarrow> server" where
  "saveDocument key document srv =
     srv\<lparr>redis := (redis srv)\<lparr>documents :=
       (documents (redis srv))(key \<mapsto> unshift_bounded document (docsOf (redis srv) key))\<rparr>\<rparr>"

definition documents_add ::
  "(string \<Rightarrow> nat) \<Rightarrow> string \<Rightarrow> nat \<Rightarrow> string option \<Rightarrow> add_body \<Rightarrow> server
     \<Rightarrow> response \<times> server \<times> event list" where
  "documents_add decodedLength documentId now postId body srv =
     (case postId of
        None \<Rightarrow> (ErrorResponse 400 ''postId is required'', srv, [])
      | Some pid \<Rightarrow>
          if pid = [] then (ErrorResponse 400 ''postId is required'', srv, [])
          else if \<not> truthy (req_fileData body) \<or> \<not> truthy (req_description body)
          then (ErrorResponse 400 ''Missing required fields'', srv, [])
          else (case (req_fileType body, req_fileData body, req_description body) of
                  (Some fileType, Some fileData, Some descr) \<Rightarrow>
                    (let fileSize = decodedLength (base64Data_of fileData) in
                     if fileSize > MAX_FILE_SIZE
                     then (ErrorResponse 400 (sizeMessage fileSize), srv, [])
                     else
                       (let document = newDocument documentId now body fileType fileData descr
                                         fileSize
                        in (DocumentResponse document, saveDocument (docsKey pid) document srv,
                            [RedisSet (docsKey pid)])))
                | _ \<Rightarrow>
                    (ErrorResponse 500 (''Cannot read properties of undefined (reading ''
                        @ [CHR 0x27] @ ''includes'' @ [CHR 0x27] @ '')''),
                     srv, [])))"

section \<open>POST /api/documents/delete\<close>

definition removeDocument :: "string \<Rightarrow> string \<Rightarrow> server \<Rightarrow> server" where
  "removeDocument key ident srv =
     srv\<lparr>redis := (redis srv)\<lparr>documents :=
       (documents (redis srv))(key \<mapsto> filter (\<lambda>doc. doc_id doc \<noteq> ident) (docsOf (redis srv) key))\<rparr>\<rparr>"

text \<open>\<open>backend\<close> is the oracle for the storage service: what it does with the delete
  request for a storage key. The handler calls \<open>StorageFactory.getAdapter()\<close> without an
  argument.\<close>

definition documents_delete ::
  "(string \<Rightarrow> backend_outcome) \<Rightarrow> string option \<Rightarrow> string option \<Rightarrow> server
     \<Rightarrow> response \<times> server \<times> event list" where
  "documents_delete backend postId ident srv =
     (case postId of
        None \<Rightarrow> (ErrorResponse 400 ''postId is required'', srv, [])
      | Some pid \<Rightarrow>
          if pid = [] then (ErrorResponse 400 ''postId is required'', srv, [])
          else (case ident of
                  None \<Rightarrow> (ErrorResponse 400 ''Document ID is required'', srv, [])
                | Some i \<Rightarrow>
                    if i = [] then (ErrorResponse 400 ''Document ID is required'', srv, [])
                    else (case find (\<lambda>doc. doc_id doc = i) (docsOf (redis srv) (docsKey pid)) of
                            None \<Rightarrow> (ErrorResponse 404 ''Document not found'', srv, [])
                          | Some document \<Rightarrow>
                              if doc_storageProvider document \<noteq> Redis
                                 \<and> truthy (doc_storageKey document)
                              then (case getAdapter (factory srv) None (procEnv srv) of
                                      (Inl e, f') \<Rightarrow>
                                        (ErrorResponse 500 ''Failed to delete document from external storage'',
                                         srv\<lparr>factory := f'\<rparr>, [])
                                    | (Inr storageAdapter, f') \<Rightarrow>
                                        (case adapter_delete storageAdapter backend
                                                (orElse (doc_storageKey document) []) of
                                           Inl e \<Rightarrow>
                                             (ErrorResponse 500 ''Failed to delete document from external storage'',
                                              srv\<lparr>factory := f'\<rparr>,
                                              [AdapterDelete (orElse (doc_storageKey document) [])])
                                         | Inr _ \<Rightarrow>
                                             (SuccessResponse,
                                              removeDocument (docsKey pid) i (srv\<lparr>factory := f'\<rparr>),
                                              [AdapterDelete (orElse (doc_storageKey document) []),
                                               RedisSet (docsKey pid)])))
                              else (SuccessResponse, removeDocument (docsKey pid) i srv,
                                    [RedisSet (docsKey pid)]))))"

section \<open>POST /api/analyze\<close>

record analyze_body =
  an_fileData :: "string option"
  an_fileType :: "string option"
  an_fileName :: "string option"

definition RATE_LIMIT :: int where
  "RATE_LIMIT = 100"

definition CACHE_TTL_SECONDS :: nat where
  "CACHE_TTL_SECONDS = 7 * 24 * 60 * 60"

definition rateLimitKey :: "string \<Rightarrow> string \<Rightarrow> string" where
  "rateLimitKey username today = ''ratelimit:analysis:'' @ username @ '':'' @ today"

definition cacheKeyOf :: "string \<Rightarrow> string" where
  "cacheKeyOf fileHash = ''analysis:'' @ fileHash"

text \<open>\<open>currentCount ? parseInt(currentCount) : 0\<close>\<close>

definition countOf :: "redis_store \<Rightarrow> string \<Rightarrow> int" where
  "countOf r key = (case counters r key of None \<Rightarrow> 0 | Some n \<Rightarrow> n)"

text \<open>\<open>redis.incrBy(key, 1)\<close> followed by \<open>redis.expire(key, seconds)\<close>.\<close>

definition incrAndExpire :: "string \<Rightarrow> nat \<Rightarrow> redis_store \<Rightarrow> redis_store" where
  "incrAndExpire key seconds r =
     r\<lparr>counters := (counters r)(key \<mapsto> countOf r key + 1),
       expiry := (expiry r)(key \<mapsto> seconds)\<rparr>"

text \<open>\<open>redis.set(cacheKey, JSON.stringify(analysis))\<close> followed by
  \<open>redis.expire(cacheKey, CACHE_TTL_SECONDS)\<close>.\<close>

definition cachePut :: "string \<Rightarrow> analysis \<Rightarrow> redis_store \<Rightarrow> redis_store" where
  "cachePut key a r =
     r\<lparr>cache := (cache r)(key \<mapsto> a), expiry := (expiry r)(key \<mapsto> CACHE_TTL_SECONDS)\<rparr>"

definition isFallback :: "analysis \<Rightarrow> bool" where
  "isFallback a =
     (includes_str (summary a) ''Auto-analysis unavailable''
      \<or> includes_str (summary a) ''Please add details manually'')"

text \<open>The outer \<open>catch\<close> of the handler: status and message from the message of the
  exception.\<close>

definition analysisErrorResponse :: "string \<Rightarrow> response" where
  "analysisErrorResponse msg =
     (let errorMsg = toLowerCase msg in
      if includes_str errorMsg ''api key not configured''
      then ErrorResponse 503 ''AI analysis is temporarily unavailable. Please add details manually.''
      else if includes_str errorMsg ''timeout''
      then ErrorResponse 504 ''Analysis took too long. Please try again or add details manually.''
      else if includes_str errorMsg ''invalid response''
      then ErrorResponse 502
             ''AI service returned an invalid response. Please try again or add details manually.''
      else if includes_str errorMsg ''gemini'' \<or> includes_str errorMsg ''api''
      then ErrorResponse 503
             ''AI analysis service is temporarily unavailable. Please add details manually.''
      else ErrorResponse 500 msg)"

definition QUOTA_MESSAGE :: string where
  "QUOTA_MESSAGE =
     ''Daily analysis limit reached (100 requests per day). Limit resets at midnight UTC.''"

text \<open>
  The parameters stand for what the handler reads from outside: \<open>hashOf s\<close> is the MD5
  digest, in hexadecimal, of \<open>Buffer.from(s, 'base64')\<close>; \<open>today\<close> is the UTC date of
  \<open>new Date().toISOString()\<close>; \<open>secondsUntilMidnight\<close> the time to the next UTC midnight;
  \<open>gen\<close> and \<open>parse\<close> are the oracle of the AI service and \<open>JSON.parse\<close>; \<open>postId\<close> comes
  from the Devvit context and \<open>username\<close> from \<open>reddit.getCurrentUsername()\<close>. The
  \<open>X-RateLimit\<close> headers of the response are not modelled.
\<close>

text \<open>The handler from the extraction of the request body on (the part that runs once
  the rate limit has let the request through).\<close>

definition analyzeAllowed ::
  "(string \<Rightarrow> string) \<Rightarrow> (nat \<Rightarrow> call_outcome) \<Rightarrow> (string \<Rightarrow> json_root)
     \<Rightarrow> analyze_body \<Rightarrow> server \<Rightarrow> response \<times> server \<times> event list" where
  "analyzeAllowed hashOf gen parse body srv1 =
     (if \<not> truthy (an_fileData body)
      then (ErrorResponse 400 ''fileData is required'', srv1, [])
      else if \<not> truthy (an_fileType body)
      then (ErrorResponse 400 ''fileType is required'', srv1, [])
      else if \<not> truthy (an_fileName body)
      then (ErrorResponse 400 ''fileName is required'', srv1, [])
      else
        (let fileData = orElse (an_fileData body) [];
             fileType = orElse (an_fileType body) [];
             fileName = orElse (an_fileName body) [];
             base64Data = base64Data_of fileData
         in if base64Data = []
            then (ErrorResponse 400 ''Invalid file data format'', srv1, [])
            else
              (let cacheKey = cacheKeyOf (hashOf base64Data) in
               case cache (redis srv1) cacheKey of
                 Some cached \<Rightarrow>
                   (AnalysisResponse (description cached) (summary cached), srv1, [])
               | None \<Rightarrow>
                   (let r = analyzeDocument
                              \<lparr>apiKey = gemini_api_key (redis srv1),
                               generateContent = gen, jsonParse = parse\<rparr>
                              fileData fileType fileName
                    in case fst r of
                         Inl msg \<Rightarrow> (analysisErrorResponse msg, srv1, snd r)
                       | Inr a \<Rightarrow>
                           if \<not> isFallback a
                           then (AnalysisResponse (description a) (summary a),
                                 srv1\<lparr>redis := cachePut cacheKey a (redis srv1)\<rparr>,
                                 snd r @ [RedisSet cacheKey,
                                          RedisExpire cacheKey CACHE_TTL_SECONDS])
                           else (AnalysisResponse (description a) (summary a), srv1,
                                 snd r)))))"

definition analyze ::
  "(string \<Rightarrow> string) \<Rightarrow> string \<Rightarrow> nat \<Rightarrow> (nat \<Rightarrow> call_outcome) \<Rightarrow> (string \<Rightarrow> json_root)
     \<Rightarrow> string option \<Rightarrow> string option \<Rightarrow> analyze_body \<Rightarrow> server
     \<Rightarrow> response \<times> server \<times> event list" where
  "analyze hashOf today secondsUntilMidnight gen parse postId username body srv =
     (if \<not> truthy postId then (ErrorResponse 400 ''postId is required'', srv, [])
      else if \<not> truthy username
      then (ErrorResponse 401 ''User authentication required'', srv, [])
      else
        (let key = rateLimitKey (orElse username []) today;
             count = countOf (redis srv) key
         in if count \<ge> RATE_LIMIT then (ErrorResponse 429 QUOTA_MESSAGE, srv, [])
            else
              (let srv1 = srv\<lparr>redis := incrAndExpire key secondsUntilMidnight (redis srv)\<rparr>;
                   r = analyzeAllowed hashOf gen parse body srv1
               in (fst r, fst (snd r),
                   [RedisIncrBy key 1, RedisExpire key secondsUntilMidnight] @ snd (snd r)))))"

text \<open>What the claims say about a request, read off the trace.\<close>

fun isGeminiCall :: "event \<Rightarrow> bool" where
  "isGeminiCall (GeminiCall n) = True"
| "isGeminiCall e = False"

fun isSleep :: "event \<Rightarrow> bool" where
  "isSleep (Sleep n) = True"
| "isSleep e = False"

text \<open>The name a provider has in the configuration and in the JSON of a document.\<close>

fun providerName :: "storage_provider \<Rightarrow> string" where
  "providerName Redis = ''redis''"
| "providerName S3 = ''s3''"
| "providerName PostgreSQL = ''postgresql''"

text \<open>A constant oracle, for concrete runs.\<close>

definition always :: "'b \<Rightarrow> 'a \<Rightarrow> 'b" where
  "always r t = r"

text \<open>The invariant of the factory: no adapter has been built and none is held, or one
  has been built, is held and is configured. \<open>result_ok\<close> is what a call may give: a
  configured adapter, which is the one the factory holds, or a configuration error.\<close>

definition factory_inv :: "factory \<Rightarrow> bool" where
  "factory_inv f =
     (case f_instance f of
        None \<Rightarrow> constructed f = 0
      | Some a \<Rightarrow> isConfigured a \<and> constructed f = 1)"

definition result_ok :: "factory \<Rightarrow> storage_error + adapter \<Rightarrow> bool" where
  "result_ok f r =
     (case r of
        Inr a \<Rightarrow> isConfigured a \<and> f_instance f = Some a
      | Inl e \<Rightarrow> isConfigurationError e)"

text \<open>An environment with no variable set, for concrete runs.\<close>

definition no_env :: process_env where
  "no_env =
     \<lparr>STORAGE_PROVIDER = None, AWS_REGION = None, AWS_ACCESS_KEY_ID = None,
      AWS_SECRET_ACCESS_KEY = None, AWS_S3_BUCKET = None, POSTGRESQL_CONNECTION_STRING = None,
      POSTGRESQL_SSL = None, SERVER_BASE_URL = None\<rparr>"

definition s3_env :: process_env where
  "s3_env = no_env\<lparr>STORAGE_PROVIDER := Some ''s3'', AWS_ACCESS_KEY_ID := Some ''AKIA'',
                   AWS_SECRET_ACCESS_KEY := Some ''secret'', AWS_S3_BUCKET := Some ''bucket''\<rparr>"

text \<open>A server with nothing stored and S3 fully configured, an upload request and the
  document it makes, for concrete runs.\<close>

definition empty_redis :: redis_store where
  "empty_redis =
     \<lparr>counters = Map.empty, cache = Map.empty, documents = Map.empty, expiry = Map.empty,
      gemini_api_key = None\<rparr>"

definition s3_server :: server where
  "s3_server = \<lparr>redis = empty_redis, factory = initial_factory, procEnv = s3_env\<rparr>"

definition png_body :: add_body where
  "png_body =
     \<lparr>req_fileName = Some ''a.png'', req_fileType = Some ''image/png'',
      req_fileData = Some ''AAAA'', req_description = Some ''d'', req_notes = None\<rparr>"

definition png_document :: document where
  "png_document =
     \<lparr>doc_id = ''doc_1'', doc_fileName = Some ''a.png'', doc_fileType = ''image/png'',
      doc_fileSize = 3, doc_imageData = Some ''AAAA'', doc_description = ''d'', doc_notes = [],
      doc_timestamp = 7, doc_storageProvider = Redis, doc_storageKey = None\<rparr>"

text \<open>A document held in S3 and a server whose post \<open>p\<close> lists it, for concrete runs.\<close>

definition s3_document :: document where
  "s3_document =
     \<lparr>doc_id = ''doc_2'', doc_fileName = Some ''a.pdf'', doc_fileType = ''application/pdf'',
      doc_fileSize = 3, doc_imageData = None, doc_description = ''d'', doc_notes = [],
      doc_timestamp = 7, doc_storageProvider = S3, doc_storageKey = Some ''k1''\<rparr>"

definition s3_document_server :: server where
  "s3_document_server =
     s3_server\<lparr>redis := empty_redis\<lparr>documents := [docsKey ''p'' \<mapsto> [s3_document]]\<rparr>\<rparr>"

text \<open>A server whose post \<open>p\<close> already lists 20 documents.\<close>

definition full_server :: server where
  "full_server =
     s3_server\<lparr>redis := empty_redis\<lparr>documents := [docsKey ''p'' \<mapsto> replicate 20 s3_document]\<rparr>\<rparr>"

text \<open>An analysis request, a server whose user \<open>u\<close> has made \<open>n\<close> requests on
  2024-01-01 and that holds an API key, and a \<open>JSON.parse\<close> that always gives the same
  two strings, for concrete runs.\<close>

definition png_request :: analyze_body where
  "png_request =
     \<lparr>an_fileData = Some ''AAAA'', an_fileType = Some ''image/png'', an_fileName = Some ''a.png''\<rparr>"

definition counted_server :: "int \<Rightarrow> server" where
  "counted_server n =
     s3_server\<lparr>redis := empty_redis\<lparr>counters := [rateLimitKey ''u'' ''2024-01-01'' \<mapsto> n],
                                      gemini_api_key := Some ''k''\<rparr>\<rparr>"

definition answers :: "string \<Rightarrow> string \<Rightarrow> string \<Rightarrow> json_root" where
  "answers d s t = JsonValue (JString d) (JString s)"

section \<open>Sanitization\<close>

lemma char_eq_code: "(c = d) = ((of_char c :: nat) = of_char d)"
  by (simp add: of_char_eq_iff)

lemma stripped_iff:
  "strippedBySanitize c = (isControlChar c \<and> c \<noteq> TAB \<and> c \<noteq> LF \<and> c \<noteq> CR)"
  unfolding strippedBySanitize_def isControlChar_def TAB_def LF_def CR_def Let_def
  by (simp add: char_eq_code [of c]) arith

lemma sanitize_replicate_a: "sanitizeText (replicate n CHR ''a'') = replicate n CHR ''a''"
  by (induction n) (simp_all add: sanitizeText_def strippedBySanitize_def)

text \<open>
  Claim C7, as amended. For every input string, \<open>sanitizeText\<close> removes every control
  character (U+0000 to U+001F and U+007F) except tab, newline and carriage return, and
  leaves all other characters unchanged and in order.
\<close>

theorem sanitizeText_keeps:
  "sanitizeText text = filter (\<lambda>c. c = TAB \<or> c = LF \<or> c = CR \<or> \<not> isControlChar c) text"
  unfolding sanitizeText_def by (rule filter_cong) (auto simp: stripped_iff)

theorem sanitizeText_keeps_witness:
  "sanitizeText [CHR ''a'', CHR 0x01, TAB, CHR 0x0B, LF, CHR 0x7F, CR, CHR ''b'']
     = [CHR ''a'', TAB, LF, CR, CHR ''b'']"
  using sanitizeText_keeps [of "[CHR ''a'', CHR 0x01, TAB, CHR 0x0B, LF, CHR 0x7F, CR, CHR ''b'']"]
  by (simp add: isControlChar_def TAB_def LF_def CR_def)

text \<open>
  Claim C7 as the specification states it fails on the carriage return: it is a control
  character, it is neither newline nor tab, and \<open>sanitizeText\<close> keeps it.
\<close>

theorem sanitizeText_CR_counterexample:
  "isControlChar CR \<and> CR \<noteq> LF \<and> CR \<noteq> TAB \<and> sanitizeText [CR] = [CR] \<and> spec_sanitize [CR] = []
     \<and> sanitizeText [CR] \<noteq> spec_sanitize [CR]"
  by (simp add: sanitizeText_def spec_sanitize_def strippedBySanitize_def isControlChar_def
        CR_def LF_def TAB_def)

section \<open>Response validation\<close>

text \<open>
  Claim C6, as amended. In the response validator sanitization is applied after
  truncation: for every parsed model response with two non-empty string fields, the
  returned description is the first 100 characters of the parsed description, sanitized,
  and the returned summary is the first 500 characters of the parsed summary, sanitized;
  output = sanitize(truncate(input)) for each field.
\<close>

theorem parseGeminiResponse_truncates_first:
  assumes "parse (cleanFences text) = JsonValue (JString ds) (JString ss)"
    and "ds \<noteq> []" and "ss \<noteq> []"
  shows "parseGeminiResponse parse text =
           Inr \<lparr>description = sanitizeText (take 100 ds), summary = sanitizeText (take 500 ss)\<rparr>"
  using assms by (simp add: parseGeminiResponse_def)

theorem parseGeminiResponse_truncates_first_witness:
  "parseGeminiResponse (always (JsonValue (JString [CHR 0x01, CHR ''a'']) (JString ''ok''))) ''{}''
     = Inr \<lparr>description = ''a'', summary = ''ok''\<rparr>"
  using parseGeminiResponse_truncates_first
          [of "always (JsonValue (JString [CHR 0x01, CHR ''a'']) (JString ''ok''))" "''{}''"
              "[CHR 0x01, CHR ''a'']" "''ok''"]
  by (simp add: always_def sanitizeText_def strippedBySanitize_def)

text \<open>
  Claim C6 as the specification states it fails: a description of one control character
  followed by 100 letters comes back with 99 letters, where truncation after sanitization
  gives 100.
\<close>

theorem parseGeminiResponse_order_counterexample:
  "parseGeminiResponse
       (always (JsonValue (JString (CHR 0x01 # replicate 100 CHR ''a'')) (JString ''ok''))) ''{}''
     = Inr \<lparr>description = replicate 99 CHR ''a'', summary = ''ok''\<rparr>
   \<and> spec_validate (CHR 0x01 # replicate 100 CHR ''a'') ''ok''
     = \<lparr>description = replicate 100 CHR ''a'', summary = ''ok''\<rparr>
   \<and> parseGeminiResponse
       (always (JsonValue (JString (CHR 0x01 # replicate 100 CHR ''a'')) (JString ''ok''))) ''{}''
     \<noteq> Inr (spec_validate (CHR 0x01 # replicate 100 CHR ''a'') ''ok'')"
proof -
  have ok: "sanitizeText ''ok'' = ''ok''"
    by (simp add: sanitizeText_def strippedBySanitize_def)
  have t: "take 100 (CHR 0x01 # replicate 100 CHR ''a'') = CHR 0x01 # replicate 99 CHR ''a''"
    by (simp add: take_Cons')
  have s1: "sanitizeText (CHR 0x01 # replicate 99 CHR ''a'') = replicate 99 CHR ''a''"
    using sanitize_replicate_a [of 99] by (simp add: sanitizeText_def strippedBySanitize_def)
  have s2: "sanitizeText (CHR 0x01 # replicate 100 CHR ''a'') = replicate 100 CHR ''a''"
    using sanitize_replicate_a [of 100] by (simp add: sanitizeText_def strippedBySanitize_def)
  have p: "parseGeminiResponse
       (always (JsonValue (JString (CHR 0x01 # replicate 100 CHR ''a'')) (JString ''ok''))) ''{}''
     = Inr \<lparr>description = replicate 99 CHR ''a'', summary = ''ok''\<rparr>"
    by (simp add: parseGeminiResponse_def always_def t s1 ok)
  have v: "spec_validate (CHR 0x01 # replicate 100 CHR ''a'') ''ok''
     = \<lparr>description = replicate 100 CHR ''a'', summary = ''ok''\<rparr>"
    by (simp add: spec_validate_def s2 ok)
  have "length (replicate 99 CHR ''a'') \<noteq> length (replicate 100 CHR ''a'')" by simp
  then have "replicate 99 CHR ''a'' \<noteq> replicate 100 CHR ''a''" by metis
  with p v show ?thesis by simp
qed

section \<open>Retries and fallback\<close>

lemma attempt_rejects:
  "apiKey env = Some k \<Longrightarrow> k \<noteq> [] \<Longrightarrow> generateContent env n = CallRejects m
     \<Longrightarrow> attempt env n = (Inl m, [GeminiCall n])"
  by (simp add: attempt_def getModel_def)

lemma analyzeImage_last:
  "fst (attempt env n) = Inl m \<Longrightarrow> \<not> (isRetryableError m \<and> n < MAX_RETRIES)
     \<Longrightarrow> analyzeImage env b f n
           = (Inr (createFallbackResponse f Image m), snd (attempt env n) @ [FallbackCreated])"
  by (subst analyzeImage.simps) auto

lemma analyzeImage_retry:
  "fst (attempt env n) = Inl m \<Longrightarrow> isRetryableError m \<Longrightarrow> n < MAX_RETRIES
     \<Longrightarrow> analyzeImage env b f n
           = (fst (analyzeImage env b f (n + 1)),
              snd (attempt env n) @ [Sleep (2 ^ n * 1000)] @ snd (analyzeImage env b f (n + 1)))"
  by (subst analyzeImage.simps) auto

lemma analyzeImage_success:
  "fst (attempt env n) = Inr r \<Longrightarrow> analyzeImage env b f n = (Inr r, snd (attempt env n))"
  by (subst analyzeImage.simps) auto

lemma analyzePDF_last:
  "fst (attempt env n) = Inl m \<Longrightarrow> \<not> (isRetryableError m \<and> n < MAX_RETRIES)
     \<Longrightarrow> analyzePDF env b f n
           = (Inr (createFallbackResponse f Pdf m), snd (attempt env n) @ [FallbackCreated])"
  by (subst analyzePDF.simps) auto

lemma analyzePDF_retry:
  "fst (attempt env n) = Inl m \<Longrightarrow> isRetryableError m \<Longrightarrow> n < MAX_RETRIES
     \<Longrightarrow> analyzePDF env b f n
           = (fst (analyzePDF env b f (n + 1)),
              snd (attempt env n) @ [Sleep (2 ^ n * 1000)] @ snd (analyzePDF env b f (n + 1)))"
  by (subst analyzePDF.simps) auto

lemma analyzePDF_success:
  "fst (attempt env n) = Inr r \<Longrightarrow> analyzePDF env b f n = (Inr r, snd (attempt env n))"
  by (subst analyzePDF.simps) auto

text \<open>
  Claim C5. With an API key configured, if the calls 0, 1 and 2 each raise a retryable
  error, the call is attempted exactly three times (1 + \<open>MAX_RETRIES\<close>), with a delay
  of 1000 ms after the first and of 2000 ms after the second attempt, and then the
  fallback result is returned; a call that raises a non-retryable error is followed by
  the fallback result without a further attempt. Both hold for \<open>analyzeImage\<close> and
  for \<open>analyzePDF\<close>.
\<close>

theorem retry_bound:
  assumes key: "apiKey env = Some k" "k \<noteq> []"
  shows "(generateContent env 0 = CallRejects m0 \<and> isRetryableError m0
          \<and> generateContent env 1 = CallRejects m1 \<and> isRetryableError m1
          \<and> generateContent env 2 = CallRejects m2 \<and> isRetryableError m2
          \<longrightarrow> analyzeImage env b f 0
                = (Inr (createFallbackResponse f Image m2),
                   [GeminiCall 0, Sleep 1000, GeminiCall 1, Sleep 2000, GeminiCall 2,
                    FallbackCreated])
            \<and> analyzePDF env b f 0
                = (Inr (createFallbackResponse f Pdf m2),
                   [GeminiCall 0, Sleep 1000, GeminiCall 1, Sleep 2000, GeminiCall 2,
                    FallbackCreated]))
       \<and> (generateContent env n = CallRejects m \<and> \<not> isRetryableError m
          \<longrightarrow> analyzeImage env b f n
                = (Inr (createFallbackResponse f Image m), [GeminiCall n, FallbackCreated])
            \<and> analyzePDF env b f n
                = (Inr (createFallbackResponse f Pdf m), [GeminiCall n, FallbackCreated]))"
proof (intro conjI impI)
  assume h: "generateContent env 0 = CallRejects m0 \<and> isRetryableError m0
          \<and> generateContent env 1 = CallRejects m1 \<and> isRetryableError m1
          \<and> generateContent env 2 = CallRejects m2 \<and> isRetryableError m2"
  have a0: "attempt env 0 = (Inl m0, [GeminiCall 0])"
    and a1: "attempt env 1 = (Inl m1, [GeminiCall 1])"
    and a2: "attempt env 2 = (Inl m2, [GeminiCall 2])"
    using h key by (simp_all add: attempt_rejects)
  have i2: "analyzeImage env b f 2
              = (Inr (createFallbackResponse f Image m2), [GeminiCall 2, FallbackCreated])"
    using analyzeImage_last [of env 2 m2 b f] a2 by (simp add: MAX_RETRIES_def)
  have i1: "analyzeImage env b f 1
              = (Inr (createFallbackResponse f Image m2),
                 [GeminiCall 1, Sleep 2000, GeminiCall 2, FallbackCreated])"
    using analyzeImage_retry [of env 1 m1 b f] a1 h i2 by (simp add: MAX_RETRIES_def numeral_2_eq_2)
  show "analyzeImage env b f 0
          = (Inr (createFallbackResponse f Image m2),
             [GeminiCall 0, Sleep 1000, GeminiCall 1, Sleep 2000, GeminiCall 2, FallbackCreated])"
    using analyzeImage_retry [of env 0 m0 b f] a0 h i1 by (simp add: MAX_RETRIES_def)
  have p2: "analyzePDF env b f 2
              = (Inr (createFallbackResponse f Pdf m2), [GeminiCall 2, FallbackCreated])"
    using analyzePDF_last [of env 2 m2 b f] a2 by (simp add: MAX_RETRIES_def)
  have p1: "analyzePDF env b f 1
              = (Inr (createFallbackResponse f Pdf m2),
                 [GeminiCall 1, Sleep 2000, GeminiCall 2, FallbackCreated])"
    using analyzePDF_retry [of env 1 m1 b f] a1 h p2 by (simp add: MAX_RETRIES_def numeral_2_eq_2)
  show "analyzePDF env b f 0
          = (Inr (createFallbackResponse f Pdf m2),
             [GeminiCall 0, Sleep 1000, GeminiCall 1, Sleep 2000, GeminiCall 2, FallbackCreated])"
    using analyzePDF_retry [of env 0 m0 b f] a0 h p1 by (simp add: MAX_RETRIES_def)
next
  assume h: "generateContent env n = CallRejects m \<and> \<not> isRetryableError m"
  then have a: "attempt env n = (Inl m, [GeminiCall n])"
    using key by (simp add: attempt_rejects)
  show "analyzeImage env b f n
          = (Inr (createFallbackResponse f Image m), [GeminiCall n, FallbackCreated])"
    using analyzeImage_last [of env n m b f] a h by simp
  show "analyzePDF env b f n
          = (Inr (createFallbackResponse f Pdf m), [GeminiCall n, FallbackCreated])"
    using analyzePDF_last [of env n m b f] a h by simp
qed

lemma retryable_timeout: "isRetryableError ''API timeout''"
  by code_simp

lemma not_retryable_400: "\<not> isRetryableError ''400 Bad Request''"
  by code_simp

theorem retry_bound_witness:
  "analyzeImage \<lparr>apiKey = Some ''k'', generateContent = always (CallRejects ''API timeout''),
                  jsonParse = always JsonSyntaxError\<rparr> ''data'' ''a.png'' 0
     = (Inr \<lparr>description = ''Image - a.png'', summary = FALLBACK_SUMMARY\<rparr>,
        [GeminiCall 0, Sleep 1000, GeminiCall 1, Sleep 2000, GeminiCall 2, FallbackCreated])
   \<and> analyzePDF \<lparr>apiKey = Some ''k'', generateContent = always (CallRejects ''400 Bad Request''),
                  jsonParse = always JsonSyntaxError\<rparr> ''data'' ''a.pdf'' 0
     = (Inr \<lparr>description = ''PDF - a.pdf'', summary = FALLBACK_SUMMARY\<rparr>,
        [GeminiCall 0, FallbackCreated])"
  using retry_bound [of "\<lparr>apiKey = Some ''k'', generateContent = always (CallRejects ''API timeout''),
                  jsonParse = always JsonSyntaxError\<rparr>" "''k''" "''API timeout''" "''API timeout''"
                  "''API timeout''" "''data''" "''a.png''" 0 "''API timeout''"]
        retry_bound [of "\<lparr>apiKey = Some ''k'', generateContent = always (CallRejects ''400 Bad Request''),
                  jsonParse = always JsonSyntaxError\<rparr>" "''k''" "''x''" "''x''"
                  "''x''" "''data''" "''a.pdf''" 0 "''400 Bad Request''"]
        retryable_timeout not_retryable_400
  by (simp add: always_def createFallbackResponse_def)

lemma no_fallback_in_attempt: "FallbackCreated \<notin> set (snd (attempt env n))"
  by (simp add: attempt_def split: sum.splits call_outcome.splits)

lemma createFallbackResponse_msg:
  "createFallbackResponse f k m = createFallbackResponse f k []"
  by (simp add: createFallbackResponse_def)

lemma analyzeImage_result:
  "\<exists>r. fst (analyzeImage env b f n) = Inr r
     \<and> ((\<exists>k. fst (attempt env k) = Inr r) \<and> FallbackCreated \<notin> set (snd (analyzeImage env b f n))
        \<or> r = createFallbackResponse f Image []
          \<and> FallbackCreated \<in> set (snd (analyzeImage env b f n)))"
proof (induction env b f n rule: analyzeImage.induct)
  case (1 env b f n)
  show ?case
  proof (cases "fst (attempt env n)")
    case (Inr r)
    then show ?thesis
      using analyzeImage_success [OF Inr, of b f] no_fallback_in_attempt [of env n] by auto
  next
    case (Inl m)
    show ?thesis
    proof (cases "isRetryableError m \<and> n < MAX_RETRIES")
      case True
      then have eq: "analyzeImage env b f n
           = (fst (analyzeImage env b f (n + 1)),
              snd (attempt env n) @ [Sleep (2 ^ n * 1000)] @ snd (analyzeImage env b f (n + 1)))"
        using analyzeImage_retry [OF Inl, of b f] by simp
      from "1.IH"(1) [OF Inl True] obtain r where
        r: "fst (analyzeImage env b f (n + 1)) = Inr r"
           "(\<exists>k. fst (attempt env k) = Inr r)
              \<and> FallbackCreated \<notin> set (snd (analyzeImage env b f (n + 1)))
            \<or> r = createFallbackResponse f Image []
              \<and> FallbackCreated \<in> set (snd (analyzeImage env b f (n + 1)))"
        by blast
      show ?thesis
        using r no_fallback_in_attempt [of env n] by (auto simp: eq)
    next
      case False
      then show ?thesis
        using analyzeImage_last [OF Inl False, of b f] createFallbackResponse_msg [of f Image m]
        by simp
    qed
  qed
qed

lemma analyzePDF_result:
  "\<exists>r. fst (analyzePDF env b f n) = Inr r
     \<and> ((\<exists>k. fst (attempt env k) = Inr r) \<and> FallbackCreated \<notin> set (snd (analyzePDF env b f n))
        \<or> r = createFallbackResponse f Pdf []
          \<and> FallbackCreated \<in> set (snd (analyzePDF env b f n)))"
proof (induction env b f n rule: analyzePDF.induct)
  case (1 env b f n)
  show ?case
  proof (cases "fst (attempt env n)")
    case (Inr r)
    then show ?thesis
      using analyzePDF_success [OF Inr, of b f] no_fallback_in_attempt [of env n] by auto
  next
    case (Inl m)
    show ?thesis
    proof (cases "isRetryableError m \<and> n < MAX_RETRIES")
      case True
      then have eq: "analyzePDF env b f n
           = (fst (analyzePDF env b f (n + 1)),
              snd (attempt env n) @ [Sleep (2 ^ n * 1000)] @ snd (analyzePDF env b f (n + 1)))"
        using analyzePDF_retry [OF Inl, of b f] by simp
      from "1.IH"(1) [OF Inl True] obtain r where
        r: "fst (analyzePDF env b f (n + 1)) = Inr r"
           "(\<exists>k. fst (attempt env k) = Inr r)
              \<and> FallbackCreated \<notin> set (snd (analyzePDF env b f (n + 1)))
            \<or> r = createFallbackResponse f Pdf []
              \<and> FallbackCreated \<in> set (snd (analyzePDF env b f (n + 1)))"
        by blast
      show ?thesis
        using r no_fallback_in_attempt [of env n] by (auto simp: eq)
    next
      case False
      then show ?thesis
        using analyzePDF_last [OF Inl False, of b f] createFallbackResponse_msg [of f Pdf m]
        by simp
    qed
  qed
qed

lemma analyzeDocument_result:
  "\<exists>r. fst (analyzeDocument env fd ft fn) = Inr r
     \<and> ((\<exists>k. fst (attempt env k) = Inr r) \<and> FallbackCreated \<notin> set (snd (analyzeDocument env fd ft fn))
        \<or> r = createFallbackResponse fn (detectFileType fd ft) []
          \<and> FallbackCreated \<in> set (snd (analyzeDocument env fd ft fn)))"
proof (cases "detectFileType fd ft")
  case Image
  obtain r where r: "fst (analyzeImage env fd fn 0) = Inr r"
      "(\<exists>k. fst (attempt env k) = Inr r) \<and> FallbackCreated \<notin> set (snd (analyzeImage env fd fn 0))
        \<or> r = createFallbackResponse fn Image []
          \<and> FallbackCreated \<in> set (snd (analyzeImage env fd fn 0))"
    using analyzeImage_result [of env fd fn 0] by blast
  then show ?thesis using Image by (auto simp: analyzeDocument_def)
next
  case Pdf
  obtain r where r: "fst (analyzePDF env fd fn 0) = Inr r"
      "(\<exists>k. fst (attempt env k) = Inr r) \<and> FallbackCreated \<notin> set (snd (analyzePDF env fd fn 0))
        \<or> r = createFallbackResponse fn Pdf []
          \<and> FallbackCreated \<in> set (snd (analyzePDF env fd fn 0))"
    using analyzePDF_result [of env fd fn 0] by blast
  then show ?thesis using Pdf by (auto simp: analyzeDocument_def)
qed

text \<open>
  Claim C4. For every input (file data, file type, file name, and whatever the stored key,
  the AI service and \<open>JSON.parse\<close> do), \<open>analyzeDocument\<close> returns a result and does
  not throw: the result is the validated response of one of the attempts or the fallback
  result built from the file name and the detected file kind; and when every attempt
  fails (in the call, in parsing or in validation) it is that fallback result.
\<close>

theorem analyzeDocument_never_throws:
  "(\<exists>r. fst (analyzeDocument env fileData fileType fileName) = Inr r
        \<and> ((\<exists>k. fst (attempt env k) = Inr r)
            \<or> r = \<lparr>description = (if detectFileType fileData fileType = Pdf then ''PDF'' else ''Image'')
                                  @ '' - '' @ fileName,
                    summary = FALLBACK_SUMMARY\<rparr>))
   \<and> ((\<forall>k. \<exists>m. fst (attempt env k) = Inl m)
        \<longrightarrow> fst (analyzeDocument env fileData fileType fileName)
              = Inr \<lparr>description = (if detectFileType fileData fileType = Pdf then ''PDF'' else ''Image'')
                                    @ '' - '' @ fileName,
                      summary = FALLBACK_SUMMARY\<rparr>)"
proof -
  obtain r where r: "fst (analyzeDocument env fileData fileType fileName) = Inr r"
    "(\<exists>k. fst (attempt env k) = Inr r)
       \<or> r = createFallbackResponse fileName (detectFileType fileData fileType) []"
    using analyzeDocument_result [of env fileData fileType fileName] by blast
  have fb: "createFallbackResponse fileName (detectFileType fileData fileType) []
              = \<lparr>description = (if detectFileType fileData fileType = Pdf then ''PDF'' else ''Image'')
                                  @ '' - '' @ fileName,
                 summary = FALLBACK_SUMMARY\<rparr>"
    by (simp add: createFallbackResponse_def)
  show ?thesis
  proof (intro conjI impI)
    show "\<exists>r. fst (analyzeDocument env fileData fileType fileName) = Inr r
        \<and> ((\<exists>k. fst (attempt env k) = Inr r)
            \<or> r = \<lparr>description = (if detectFileType fileData fileType = Pdf then ''PDF'' else ''Image'')
                                  @ '' - '' @ fileName,
                    summary = FALLBACK_SUMMARY\<rparr>)"
      using r fb by auto
  next
    assume all: "\<forall>k. \<exists>m. fst (attempt env k) = Inl m"
    then have "\<not> (\<exists>k. fst (attempt env k) = Inr r)"
      by (metis sum.distinct(1))
    with r fb show "fst (analyzeDocument env fileData fileType fileName)
              = Inr \<lparr>description = (if detectFileType fileData fileType = Pdf then ''PDF'' else ''Image'')
                                    @ '' - '' @ fileName,
                      summary = FALLBACK_SUMMARY\<rparr>"
      by simp
  qed
qed

lemma detect_png: "detectFileType ''data'' ''image/png'' = Image"
  by code_simp

theorem analyzeDocument_never_throws_witness:
  "fst (analyzeDocument \<lparr>apiKey = None, generateContent = always (CallRejects ''x''),
                         jsonParse = always JsonSyntaxError\<rparr> ''data'' ''image/png'' ''a.png'')
     = Inr \<lparr>description = ''Image - a.png'', summary = FALLBACK_SUMMARY\<rparr>"
  using analyzeDocument_never_throws
          [of "\<lparr>apiKey = None, generateContent = always (CallRejects ''x''),
                jsonParse = always JsonSyntaxError\<rparr>" "''data''" "''image/png''" "''a.png''"]
        detect_png
  by (simp add: attempt_def getModel_def)

section \<open>The storage factory\<close>

lemma validateS3_Inr:
  "validateS3Configuration c = Inr u
     \<Longrightarrow> \<exists>x. c = Some x \<and> accessKeyId x \<noteq> [] \<and> secretAccessKey x \<noteq> [] \<and> bucket x \<noteq> []"
  by (cases c) (auto simp: validateS3Configuration_def missingNames_def orElse_def Let_def
                     split: if_splits)

lemma validatePG_Inr:
  "validatePostgreSQLConfiguration c = Inr u
     \<Longrightarrow> \<exists>x. c = Some x \<and> connectionString x \<noteq> [] \<and> serverBaseUrl x \<noteq> []"
  by (cases c) (auto simp: validatePostgreSQLConfiguration_def missingNames_def orElse_def Let_def
                     split: if_splits)

lemma validated_adapter_configured:
  assumes "validateConfiguration cfg = Inr u" and "createAdapter cfg env = Inr a"
  shows "isConfigured a"
proof (cases "provider cfg = ''s3''")
  case True
  then have "validateS3Configuration (s3 cfg) = Inr u"
    using assms(1) by (simp add: validateConfiguration_def split: if_splits)
  then obtain x where "s3 cfg = Some x" "accessKeyId x \<noteq> []" "secretAccessKey x \<noteq> []" "bucket x \<noteq> []"
    using validateS3_Inr by blast
  then show ?thesis
    using assms(2) True by (auto simp: createAdapter_def new_S3StorageAdapter_def)
next
  case False
  then have pg: "provider cfg = ''postgresql''"
    using assms(2) by (simp add: createAdapter_def split: if_splits)
  then have "validatePostgreSQLConfiguration (postgresql cfg) = Inr u"
    using assms(1) by (simp add: validateConfiguration_def split: if_splits)
  then obtain x where "postgresql cfg = Some x" "connectionString x \<noteq> []" "serverBaseUrl x \<noteq> []"
    using validatePG_Inr by blast
  then show ?thesis
    using assms(2) pg by (auto simp: createAdapter_def new_PostgreSQLStorageAdapter_def)
qed

lemma validate_error: "validateConfiguration cfg = Inl e \<Longrightarrow> isConfigurationError e"
  by (auto simp: validateConfiguration_def validateS3Configuration_def
                 validatePostgreSQLConfiguration_def isConfigurationError_def Let_def
           split: if_splits)

lemma create_error: "createAdapter cfg env = Inl e \<Longrightarrow> isConfigurationError e"
  by (auto simp: createAdapter_def isConfigurationError_def split: if_splits)

lemma getAdapter_step:
  assumes "factory_inv f"
  shows "factory_inv (snd (getAdapter f ac env))
         \<and> result_ok (snd (getAdapter f ac env)) (fst (getAdapter f ac env))
         \<and> (f_instance f = Some a \<longrightarrow> f_instance (snd (getAdapter f ac env)) = Some a)"
proof (cases "f_instance f")
  case (Some b)
  then show ?thesis
    using assms by (simp add: getAdapter_def factory_inv_def result_ok_def)
next
  case None
  define cfg where "cfg = (case ac of Some c \<Rightarrow> loadConfigurationFromAppConfig c
                                    | None \<Rightarrow> loadConfiguration env)"
  show ?thesis
  proof (cases "validateConfiguration cfg")
    case (Inl e)
    then show ?thesis
      using None assms validate_error [OF Inl]
      by (simp add: getAdapter_def factory_inv_def result_ok_def cfg_def Let_def)
  next
    case (Inr u)
    show ?thesis
    proof (cases "createAdapter cfg env")
      case (Inl e)
      then show ?thesis
        using None assms Inr create_error [OF Inl]
        by (simp add: getAdapter_def factory_inv_def result_ok_def cfg_def Let_def)
    next
      case (Inr b)
      have "isConfigured b"
        using validated_adapter_configured [OF \<open>validateConfiguration cfg = Inr u\<close> Inr] .
      then show ?thesis
        using None assms Inr \<open>validateConfiguration cfg = Inr u\<close>
        by (simp add: getAdapter_def factory_inv_def result_ok_def cfg_def Let_def)
    qed
  qed
qed

lemma run_getAdapter_inv:
  "factory_inv f
     \<Longrightarrow> factory_inv (snd (run_getAdapter f calls))
         \<and> (\<forall>r \<in> set (fst (run_getAdapter f calls)). result_ok (snd (run_getAdapter f calls)) r)
         \<and> (f_instance f = Some a \<longrightarrow> f_instance (snd (run_getAdapter f calls)) = Some a)"
proof (induction calls arbitrary: f a)
  case Nil
  then show ?case by simp
next
  case (Cons c rest)
  let ?f1 = "snd (getAdapter f (fst c) (snd c))"
  let ?r = "fst (getAdapter f (fst c) (snd c))"
  have s: "factory_inv ?f1" "result_ok ?f1 ?r"
    and keep: "f_instance f = Some a \<longrightarrow> f_instance ?f1 = Some a"
    using getAdapter_step [OF Cons.prems, of "fst c" "snd c" a] by simp_all
  have ih: "factory_inv (snd (run_getAdapter ?f1 rest))"
      "\<forall>r \<in> set (fst (run_getAdapter ?f1 rest)). result_ok (snd (run_getAdapter ?f1 rest)) r"
      "\<And>b. f_instance ?f1 = Some b \<longrightarrow> f_instance (snd (run_getAdapter ?f1 rest)) = Some b"
    using Cons.IH [OF s(1)] by simp_all
  have "result_ok (snd (run_getAdapter ?f1 rest)) ?r"
    using s(2) ih(3) by (auto simp: result_ok_def split: sum.splits)
  then show ?case
    using ih keep by (simp add: Let_def)
qed

text \<open>
  Claim C9. Over any sequence of calls of \<open>getAdapter\<close> in a process, whatever the
  arguments and the environment of each call, the factory constructs at most one adapter,
  and every call either returns an adapter whose \<open>isConfigured()\<close> is true (the one
  instance the factory holds) or throws a configuration error.
\<close>

theorem getAdapter_singleton:
  "constructed (snd (run_getAdapter initial_factory calls)) \<le> 1
   \<and> (\<forall>r \<in> set (fst (run_getAdapter initial_factory calls)).
         case r of
           Inr a \<Rightarrow> isConfigured a \<and> f_instance (snd (run_getAdapter initial_factory calls)) = Some a
         | Inl e \<Rightarrow> isConfigurationError e)"
proof -
  have i: "factory_inv initial_factory"
    by (simp add: factory_inv_def initial_factory_def)
  have "factory_inv (snd (run_getAdapter initial_factory calls))"
    and r: "\<forall>r \<in> set (fst (run_getAdapter initial_factory calls)).
              result_ok (snd (run_getAdapter initial_factory calls)) r"
    using run_getAdapter_inv [OF i, of calls] by simp_all
  then have "constructed (snd (run_getAdapter initial_factory calls)) \<le> 1"
    by (auto simp: factory_inv_def split: option.splits)
  with r show ?thesis by (simp add: result_ok_def)
qed


theorem getAdapter_singleton_witness:
  "fst (run_getAdapter initial_factory [(None, no_env), (None, s3_env), (None, no_env)])
     = [Inl (StorageError CONFIGURATION_ERROR
               ''Missing required S3 configuration: AWS_ACCESS_KEY_ID, AWS_SECRET_ACCESS_KEY, AWS_S3_BUCKET''),
        Inr (S3StorageAdapter ''us-east-1'' ''bucket'' True),
        Inr (S3StorageAdapter ''us-east-1'' ''bucket'' True)]
   \<and> constructed (snd (run_getAdapter initial_factory
                          [(None, no_env), (None, s3_env), (None, no_env)])) = 1"
  using getAdapter_singleton [of "[(None, no_env), (None, s3_env), (None, no_env)]"]
  by (simp add: getAdapter_def initial_factory_def loadConfiguration_def validateConfiguration_def
        validateS3Configuration_def missingNames_def orElse_def createAdapter_def
        new_S3StorageAdapter_def no_env_def s3_env_def Let_def)

section \<open>Document upload\<close>

lemma docsOf_saveDocument:
  "docsOf (redis (saveDocument key d srv)) key = unshift_bounded d (docsOf (redis srv) key)"
  by (simp add: docsOf_def saveDocument_def)

lemma factory_saveDocument: "factory (saveDocument key d srv) = factory srv"
  by (simp add: saveDocument_def)

lemma unshift_bounded_eq:
  "unshift_bounded d ds = (if length ds \<ge> 20 then d # butlast ds else d # ds)"
  by (cases ds) (auto simp: unshift_bounded_def)

lemma unshift_bounded_take:
  "length ds \<le> 20 \<Longrightarrow> unshift_bounded d ds = take 20 (d # ds)"
  by (cases "length ds = 20") (auto simp: unshift_bounded_eq butlast_conv_take take_Cons')

lemma documents_add_cases:
  "(\<exists>status msg. documents_add decodedLength documentId now postId body srv
                   = (ErrorResponse status msg, srv, []))
   \<or> (\<exists>pid fileType fileData descr.
         postId = Some pid \<and> req_fileType body = Some fileType
         \<and> req_fileData body = Some fileData \<and> req_description body = Some descr
         \<and> decodedLength (base64Data_of fileData) \<le> MAX_FILE_SIZE
         \<and> documents_add decodedLength documentId now postId body srv
             = (DocumentResponse (newDocument documentId now body fileType fileData descr
                                    (decodedLength (base64Data_of fileData))),
                saveDocument (docsKey pid)
                  (newDocument documentId now body fileType fileData descr
                     (decodedLength (base64Data_of fileData))) srv,
                [RedisSet (docsKey pid)]))"
proof (cases postId)
  case None
  then show ?thesis by (simp add: documents_add_def)
next
  case (Some pid)
  show ?thesis
  proof (cases "pid = []")
    case True
    then show ?thesis using Some by (simp add: documents_add_def)
  next
    case pid: False
    show ?thesis
    proof (cases "\<not> truthy (req_fileData body) \<or> \<not> truthy (req_description body)")
      case True
      then have "documents_add decodedLength documentId now postId body srv
                   = (ErrorResponse 400 ''Missing required fields'', srv, [])"
        using Some pid by (simp add: documents_add_def)
      then show ?thesis by blast
    next
      case False
      then obtain fileData descr where
        fd: "req_fileData body = Some fileData" and de: "req_description body = Some descr"
        by (auto simp: truthy_def split: option.splits)
      show ?thesis
      proof (cases "req_fileType body")
        case None
        then show ?thesis using Some pid False fd de by (simp add: documents_add_def)
      next
        case ft: (Some fileType)
        show ?thesis
        proof (cases "decodedLength (base64Data_of fileData) > MAX_FILE_SIZE")
          case True
          then show ?thesis
            using Some pid False fd de ft by (simp add: documents_add_def)
        next
          case False
          then have "documents_add decodedLength documentId now postId body srv
             = (DocumentResponse (newDocument documentId now body fileType fileData descr
                                    (decodedLength (base64Data_of fileData))),
                saveDocument (docsKey pid)
                  (newDocument documentId now body fileType fileData descr
                     (decodedLength (base64Data_of fileData))) srv,
                [RedisSet (docsKey pid)])"
            using Some pid \<open>\<not> (\<not> truthy (req_fileData body) \<or> \<not> truthy (req_description body))\<close>
              fd de ft
            by (simp add: documents_add_def Let_def)
          then show ?thesis using Some fd de ft False by simp
        qed
      qed
    qed
  qed
qed

lemma documents_add_accepted:
  assumes "documents_add decodedLength documentId now postId body srv = (DocumentResponse d, srv', tr)"
  shows "\<exists>pid. postId = Some pid \<and> srv' = saveDocument (docsKey pid) d srv
           \<and> tr = [RedisSet (docsKey pid)] \<and> doc_storageProvider d = Redis
           \<and> doc_storageKey d = None \<and> doc_imageData d = req_fileData body"
  using documents_add_cases [of decodedLength documentId now postId body srv] assms
  by (auto simp: newDocument_def)


lemma documents_add_accepts:
  assumes "pid \<noteq> []" and "req_fileType body = Some fileType"
    and "req_fileData body = Some fileData" and "fileData \<noteq> []"
    and "req_description body = Some descr" and "descr \<noteq> []"
    and "decodedLength (base64Data_of fileData) \<le> 512000"
  shows "documents_add decodedLength documentId now (Some pid) body srv
           = (DocumentResponse (newDocument documentId now body fileType fileData descr
                                  (decodedLength (base64Data_of fileData))),
              saveDocument (docsKey pid)
                (newDocument documentId now body fileType fileData descr
                   (decodedLength (base64Data_of fileData))) srv,
              [RedisSet (docsKey pid)])"
  using assms by (simp add: documents_add_def truthy_def MAX_FILE_SIZE_def Let_def)

lemma documents_add_too_big:
  assumes "pid \<noteq> []" and "req_fileType body = Some fileType"
    and "req_fileData body = Some fileData" and "fileData \<noteq> []"
    and "req_description body = Some descr" and "descr \<noteq> []"
    and "decodedLength (base64Data_of fileData) > 512000"
  shows "documents_add decodedLength documentId now (Some pid) body srv
           = (ErrorResponse 400 (sizeMessage (decodedLength (base64Data_of fileData))), srv, [])"
  using assms by (simp add: documents_add_def truthy_def MAX_FILE_SIZE_def Let_def)

text \<open>
  Claim C10. \<open>MAX_FILE_SIZE\<close> is 512,000 bytes. Every request to the document-add
  endpoint whose decoded content is larger is answered with an error, with no write: the
  server state is unchanged; when the request is otherwise complete the error is the one
  of status 400 that names the limit of 500KB and the size. A complete request of at most
  512,000 bytes is accepted: the answer is the new document, the new document is
  prepended to the list of the post and, when the list then has more than 20 entries, its
  last (oldest) entry is dropped; a list of at most 20 entries has at most 20 entries
  afterwards, the first 20 of the new document followed by the old list. The same holds
  of the list after any accepted upload.
\<close>

theorem documents_add_size_and_bound:
  "MAX_FILE_SIZE = 512000
   \<and> (req_fileData body = Some fileData \<and> decodedLength (base64Data_of fileData) > 512000
        \<longrightarrow> (\<exists>status msg. documents_add decodedLength documentId now postId body srv
                            = (ErrorResponse status msg, srv, [])))
   \<and> (pid \<noteq> [] \<and> req_fileType body = Some fileType \<and> req_fileData body = Some fileData
        \<and> fileData \<noteq> [] \<and> req_description body = Some descr \<and> descr \<noteq> []
        \<and> decodedLength (base64Data_of fileData) > 512000
        \<longrightarrow> documents_add decodedLength documentId now (Some pid) body srv
              = (ErrorResponse 400 (sizeMessage (decodedLength (base64Data_of fileData))), srv, []))
   \<and> (pid \<noteq> [] \<and> req_fileType body = Some fileType \<and> req_fileData body = Some fileData
        \<and> fileData \<noteq> [] \<and> req_description body = Some descr \<and> descr \<noteq> []
        \<and> decodedLength (base64Data_of fileData) \<le> 512000
        \<longrightarrow> (\<exists>doc srv2.
               documents_add decodedLength documentId now (Some pid) body srv
                 = (DocumentResponse doc, srv2, [RedisSet (docsKey pid)])
               \<and> doc = newDocument documentId now body fileType fileData descr
                         (decodedLength (base64Data_of fileData))
               \<and> documents (redis srv2) (docsKey pid) = Some (docsOf (redis srv2) (docsKey pid))
               \<and> docsOf (redis srv2) (docsKey pid)
                   = (if length (docsOf (redis srv) (docsKey pid)) \<ge> 20
                      then doc # butlast (docsOf (redis srv) (docsKey pid))
                      else doc # docsOf (redis srv) (docsKey pid))
               \<and> (length (docsOf (redis srv) (docsKey pid)) \<le> 20
                    \<longrightarrow> length (docsOf (redis srv2) (docsKey pid)) \<le> 20
                        \<and> docsOf (redis srv2) (docsKey pid)
                            = take 20 (doc # docsOf (redis srv) (docsKey pid)))))
   \<and> (documents_add decodedLength documentId now postId body srv = (DocumentResponse d, srv', tr)
        \<longrightarrow> (\<exists>pid. postId = Some pid
               \<and> docsOf (redis srv') (docsKey pid)
                   = (if length (docsOf (redis srv) (docsKey pid)) \<ge> 20
                      then d # butlast (docsOf (redis srv) (docsKey pid))
                      else d # docsOf (redis srv) (docsKey pid))
               \<and> (length (docsOf (redis srv) (docsKey pid)) \<le> 20
                    \<longrightarrow> length (docsOf (redis srv') (docsKey pid)) \<le> 20
                        \<and> docsOf (redis srv') (docsKey pid)
                            = take 20 (d # docsOf (redis srv) (docsKey pid)))))"
proof (intro conjI impI)
  show "MAX_FILE_SIZE = 512000" by (simp add: MAX_FILE_SIZE_def)
next
  assume big: "req_fileData body = Some fileData \<and> decodedLength (base64Data_of fileData) > 512000"
  then have "\<not> (\<exists>fd. req_fileData body = Some fd \<and> decodedLength (base64Data_of fd) \<le> MAX_FILE_SIZE)"
    by (simp add: MAX_FILE_SIZE_def)
  then show "\<exists>status msg. documents_add decodedLength documentId now postId body srv
                            = (ErrorResponse status msg, srv, [])"
    using documents_add_cases [of decodedLength documentId now postId body srv] by blast
next
  assume "pid \<noteq> [] \<and> req_fileType body = Some fileType \<and> req_fileData body = Some fileData
        \<and> fileData \<noteq> [] \<and> req_description body = Some descr \<and> descr \<noteq> []
        \<and> decodedLength (base64Data_of fileData) > 512000"
  then show "documents_add decodedLength documentId now (Some pid) body srv
              = (ErrorResponse 400 (sizeMessage (decodedLength (base64Data_of fileData))), srv, [])"
    using documents_add_too_big [of pid body fileType fileData descr decodedLength documentId now srv]
    by simp
next
  assume h: "pid \<noteq> [] \<and> req_fileType body = Some fileType \<and> req_fileData body = Some fileData
        \<and> fileData \<noteq> [] \<and> req_description body = Some descr \<and> descr \<noteq> []
        \<and> decodedLength (base64Data_of fileData) \<le> 512000"
  let ?doc = "newDocument documentId now body fileType fileData descr
                (decodedLength (base64Data_of fileData))"
  let ?srv2 = "saveDocument (docsKey pid) ?doc srv"
  from h have h1: "pid \<noteq> []" and h2: "req_fileType body = Some fileType"
    and h3: "req_fileData body = Some fileData" and h4: "fileData \<noteq> []"
    and h5: "req_description body = Some descr" and h6: "descr \<noteq> []"
    and h7: "decodedLength (base64Data_of fileData) \<le> 512000"
    by simp_all
  have run: "documents_add decodedLength documentId now (Some pid) body srv
               = (DocumentResponse ?doc, ?srv2, [RedisSet (docsKey pid)])"
    by (rule documents_add_accepts [where decodedLength = decodedLength, OF h1 h2 h3 h4 h5 h6 h7])
  have n: "docsOf (redis ?srv2) (docsKey pid)
             = unshift_bounded ?doc (docsOf (redis srv) (docsKey pid))"
    by (rule docsOf_saveDocument)
  have st: "documents (redis ?srv2) (docsKey pid) = Some (docsOf (redis ?srv2) (docsKey pid))"
    by (simp add: saveDocument_def docsOf_def)
  have e: "docsOf (redis ?srv2) (docsKey pid)
             = (if length (docsOf (redis srv) (docsKey pid)) \<ge> 20
                then ?doc # butlast (docsOf (redis srv) (docsKey pid))
                else ?doc # docsOf (redis srv) (docsKey pid))"
    unfolding n by (rule unshift_bounded_eq)
  have t: "length (docsOf (redis srv) (docsKey pid)) \<le> 20
             \<longrightarrow> length (docsOf (redis ?srv2) (docsKey pid)) \<le> 20
                 \<and> docsOf (redis ?srv2) (docsKey pid)
                     = take 20 (?doc # docsOf (redis srv) (docsKey pid))"
    unfolding n using unshift_bounded_take [of "docsOf (redis srv) (docsKey pid)" ?doc] by simp
  have all: "documents_add decodedLength documentId now (Some pid) body srv
                 = (DocumentResponse ?doc, ?srv2, [RedisSet (docsKey pid)])
               \<and> ?doc = newDocument documentId now body fileType fileData descr
                         (decodedLength (base64Data_of fileData))
               \<and> documents (redis ?srv2) (docsKey pid) = Some (docsOf (redis ?srv2) (docsKey pid))
               \<and> docsOf (redis ?srv2) (docsKey pid)
                   = (if length (docsOf (redis srv) (docsKey pid)) \<ge> 20
                      then ?doc # butlast (docsOf (redis srv) (docsKey pid))
                      else ?doc # docsOf (redis srv) (docsKey pid))
               \<and> (length (docsOf (redis srv) (docsKey pid)) \<le> 20
                    \<longrightarrow> length (docsOf (redis ?srv2) (docsKey pid)) \<le> 20
                        \<and> docsOf (redis ?srv2) (docsKey pid)
                            = take 20 (?doc # docsOf (redis srv) (docsKey pid)))"
    by (intro conjI run refl st e t)
  show "\<exists>doc srv2.
               documents_add decodedLength documentId now (Some pid) body srv
                 = (DocumentResponse doc, srv2, [RedisSet (docsKey pid)])
               \<and> doc = newDocument documentId now body fileType fileData descr
                         (decodedLength (base64Data_of fileData))
               \<and> documents (redis srv2) (docsKey pid) = Some (docsOf (redis srv2) (docsKey pid))
               \<and> docsOf (redis srv2) (docsKey pid)
                   = (if length (docsOf (redis srv) (docsKey pid)) \<ge> 20
                      then doc # butlast (docsOf (redis srv) (docsKey pid))
                      else doc # docsOf (redis srv) (docsKey pid))
               \<and> (length (docsOf (redis srv) (docsKey pid)) \<le> 20
                    \<longrightarrow> length (docsOf (redis srv2) (docsKey pid)) \<le> 20
                        \<and> docsOf (redis srv2) (docsKey pid)
                            = take 20 (doc # docsOf (redis srv) (docsKey pid)))"
    by (rule exI [of _ ?doc], rule exI [of _ ?srv2], rule all)
next
  assume a: "documents_add decodedLength documentId now postId body srv = (DocumentResponse d, srv', tr)"
  from documents_add_accepted [OF a] obtain pid where
    p: "postId = Some pid" and s: "srv' = saveDocument (docsKey pid) d srv"
    by blast
  have n: "docsOf (redis srv') (docsKey pid) = unshift_bounded d (docsOf (redis srv) (docsKey pid))"
    unfolding s by (rule docsOf_saveDocument)
  have e: "docsOf (redis srv') (docsKey pid)
             = (if length (docsOf (redis srv) (docsKey pid)) \<ge> 20
                then d # butlast (docsOf (redis srv) (docsKey pid))
                else d # docsOf (redis srv) (docsKey pid))"
    unfolding n by (rule unshift_bounded_eq)
  have t: "length (docsOf (redis srv) (docsKey pid)) \<le> 20
             \<longrightarrow> length (docsOf (redis srv') (docsKey pid)) \<le> 20
                 \<and> docsOf (redis srv') (docsKey pid) = take 20 (d # docsOf (redis srv) (docsKey pid))"
    unfolding n using unshift_bounded_take [of "docsOf (redis srv) (docsKey pid)" d] by simp
  show "\<exists>pid. postId = Some pid
               \<and> docsOf (redis srv') (docsKey pid)
                   = (if length (docsOf (redis srv) (docsKey pid)) \<ge> 20
                      then d # butlast (docsOf (redis srv) (docsKey pid))
                      else d # docsOf (redis srv) (docsKey pid))
               \<and> (length (docsOf (redis srv) (docsKey pid)) \<le> 20
                    \<longrightarrow> length (docsOf (redis srv') (docsKey pid)) \<le> 20
                        \<and> docsOf (redis srv') (docsKey pid)
                            = take 20 (d # docsOf (redis srv) (docsKey pid)))"
    using p e t by blast
qed

lemma png_add:
  "documents_add (always 3) ''doc_1'' 7 (Some ''p'') png_body s3_server
     = (DocumentResponse png_document, saveDocument (docsKey ''p'') png_document s3_server,
        [RedisSet (docsKey ''p'')])"
  by (simp add: documents_add_def png_body_def png_document_def truthy_def always_def
        MAX_FILE_SIZE_def newDocument_def orElse_def Let_def)

lemma digitChar_0: "digitChar 0 = CHR ''0''"
  by code_simp

lemma digitChar_5: "digitChar 5 = CHR ''5''"
  by code_simp

lemma showNat_500: "showNat 500 = ''500''"
  by (simp add: showNat.simps [of 500] showNat.simps [of 50] showNat.simps [of 5]
        digitChar_0 digitChar_5)

lemma toFixed2_KB_512001: "toFixed2_KB 512001 = ''500.00''"
  by (simp add: toFixed2_KB_def showNat_500 digitChar_0)

lemma sizeMessage_512001:
  "sizeMessage 512001 = ''File size exceeds maximum limit of 500KB. Current size: 500.00KB''"
  by (simp add: sizeMessage_def toFixed2_KB_512001)

lemma full_server_docs: "docsOf (redis full_server) (docsKey ''p'') = replicate 20 s3_document"
  by (simp add: full_server_def docsOf_def)

lemma png_newDocument: "newDocument ''doc_1'' 7 png_body ''image/png'' ''AAAA'' ''d'' 3 = png_document"
  by (simp add: newDocument_def png_body_def png_document_def orElse_def)

lemma png_add_full:
  "documents_add (always 3) ''doc_1'' 7 (Some ''p'') png_body full_server
     = (DocumentResponse png_document, saveDocument (docsKey ''p'') png_document full_server,
        [RedisSet (docsKey ''p'')])"
  by (simp add: documents_add_def png_body_def png_document_def truthy_def always_def
        MAX_FILE_SIZE_def newDocument_def orElse_def Let_def)

theorem documents_add_size_and_bound_witness:
  "documents_add (always 512001) ''doc_1'' 7 (Some ''p'') png_body full_server
     = (ErrorResponse 400 ''File size exceeds maximum limit of 500KB. Current size: 500.00KB'',
        full_server, [])
   \<and> documents_add (always 3) ''doc_1'' 7 (Some ''p'') png_body full_server
       = (DocumentResponse png_document, saveDocument (docsKey ''p'') png_document full_server,
          [RedisSet (docsKey ''p'')])
   \<and> docsOf (redis (saveDocument (docsKey ''p'') png_document full_server)) (docsKey ''p'')
       = png_document # replicate 19 s3_document"
proof -
  have big: "always 512001 (base64Data_of ''AAAA'') = (512001::nat)"
    and small: "always 3 (base64Data_of ''AAAA'') = (3::nat)"
    by (simp_all add: always_def)
  have pre_big: "''p'' \<noteq> [] \<and> req_fileType png_body = Some ''image/png''
        \<and> req_fileData png_body = Some ''AAAA'' \<and> ''AAAA'' \<noteq> []
        \<and> req_description png_body = Some ''d'' \<and> ''d'' \<noteq> []
        \<and> always 512001 (base64Data_of ''AAAA'') > (512000::nat)"
    unfolding big by (simp add: png_body_def)
  have pre_small: "''p'' \<noteq> [] \<and> req_fileType png_body = Some ''image/png''
        \<and> req_fileData png_body = Some ''AAAA'' \<and> ''AAAA'' \<noteq> []
        \<and> req_description png_body = Some ''d'' \<and> ''d'' \<noteq> []
        \<and> always 3 (base64Data_of ''AAAA'') \<le> (512000::nat)"
    unfolding small by (simp add: png_body_def)
  note big_run = documents_add_size_and_bound
          [where body = png_body and fileData = "''AAAA''" and decodedLength = "always 512001"
             and documentId = "''doc_1''" and now = 7 and srv = full_server and pid = "''p''"
             and fileType = "''image/png''" and descr = "''d''",
           THEN conjunct2, THEN conjunct2, THEN conjunct1, THEN mp, OF pre_big]
  note small_run = documents_add_size_and_bound
          [where body = png_body and fileData = "''AAAA''" and decodedLength = "always 3"
             and documentId = "''doc_1''" and now = 7 and srv = full_server and pid = "''p''"
             and fileType = "''image/png''" and descr = "''d''",
           THEN conjunct2, THEN conjunct2, THEN conjunct2, THEN conjunct1, THEN mp, OF pre_small]
  have r1: "documents_add (always 512001) ''doc_1'' 7 (Some ''p'') png_body full_server
     = (ErrorResponse 400 ''File size exceeds maximum limit of 500KB. Current size: 500.00KB'',
        full_server, [])"
    using big_run unfolding big sizeMessage_512001 .
  from small_run [unfolded small png_newDocument full_server_docs] obtain doc srv2 where
    r2: "documents_add (always 3) ''doc_1'' 7 (Some ''p'') png_body full_server
           = (DocumentResponse doc, srv2, [RedisSet (docsKey ''p'')])"
    and d: "doc = png_document"
    and t: "length (replicate 20 s3_document) \<le> 20
             \<longrightarrow> length (docsOf (redis srv2) (docsKey ''p'')) \<le> 20
                 \<and> docsOf (redis srv2) (docsKey ''p'') = take 20 (doc # replicate 20 s3_document)"
    by (elim exE conjE) (rule that)
  have l: "docsOf (redis srv2) (docsKey ''p'') = take 20 (doc # replicate 20 s3_document)"
    using t by simp
  have tk: "take 20 (png_document # replicate 20 s3_document)
              = png_document # replicate 19 s3_document"
    by (simp add: take_Cons')
  have a: "documents_add (always 3) ''doc_1'' 7 (Some ''p'') png_body full_server
       = (DocumentResponse png_document, saveDocument (docsKey ''p'') png_document full_server,
          [RedisSet (docsKey ''p'')])"
    by (rule png_add_full)
  have s2: "srv2 = saveDocument (docsKey ''p'') png_document full_server"
    using r2 a by simp
  show ?thesis
    using r1 a l tk unfolding d s2 by simp
qed

text \<open>
  Claim C3, as amended. For every accepted document upload, the upload flow stores the
  content inline, as the base64 string of the request, in the document list of the post
  in Redis; it does not touch the storage factory and calls no adapter; and the stored
  document's \<open>storageProvider\<close> is \<open>redis\<close> and it has no storage key, whatever backend
  is configured.
\<close>

theorem documents_add_stores_inline:
  assumes "documents_add decodedLength documentId now postId body srv = (DocumentResponse d, srv', tr)"
  shows "doc_storageProvider d = Redis \<and> doc_storageKey d = None
         \<and> doc_imageData d = req_fileData body
         \<and> factory srv' = factory srv \<and> AdapterUpload \<notin> set tr
         \<and> (\<exists>pid. postId = Some pid \<and> hd (docsOf (redis srv') (docsKey pid)) = d)"
proof -
  from documents_add_accepted [OF assms] obtain pid where
    h: "postId = Some pid" "srv' = saveDocument (docsKey pid) d srv" "tr = [RedisSet (docsKey pid)]"
       "doc_storageProvider d = Redis" "doc_storageKey d = None"
       "doc_imageData d = req_fileData body"
    by blast
  have "hd (docsOf (redis srv') (docsKey pid)) = d"
    unfolding h(2) docsOf_saveDocument by (simp add: unshift_bounded_eq)
  then show ?thesis using h by (simp add: factory_saveDocument)
qed

theorem documents_add_stores_inline_witness:
  "doc_storageProvider png_document = Redis \<and> doc_storageKey png_document = None
   \<and> doc_imageData png_document = req_fileData png_body
   \<and> factory (saveDocument (docsKey ''p'') png_document s3_server) = factory s3_server
   \<and> AdapterUpload \<notin> set [RedisSet (docsKey ''p'')]"
  using documents_add_stores_inline [OF png_add] by blast

text \<open>
  Claim C3 as the specification states it fails: with S3 selected and fully configured,
  an accepted upload calls no adapter, builds none, and stores a document whose provider
  is \<open>redis\<close>, not \<open>s3\<close>.
\<close>

theorem documents_add_backend_counterexample:
  "provider (loadConfiguration (procEnv s3_server)) = ''s3''
   \<and> validateConfiguration (loadConfiguration (procEnv s3_server)) = Inr ()
   \<and> documents_add (always 3) ''doc_1'' 7 (Some ''p'') png_body s3_server
       = (DocumentResponse png_document, saveDocument (docsKey ''p'') png_document s3_server,
          [RedisSet (docsKey ''p'')])
   \<and> AdapterUpload \<notin> set [RedisSet (docsKey ''p'')]
   \<and> f_instance (factory (saveDocument (docsKey ''p'') png_document s3_server)) = None
   \<and> providerName (doc_storageProvider png_document)
       \<noteq> provider (loadConfiguration (procEnv s3_server))"
proof -
  have l: "loadConfiguration (procEnv s3_server)
             = \<lparr>provider = ''s3'',
                s3 = Some \<lparr>region = ''us-east-1'', accessKeyId = ''AKIA'',
                           secretAccessKey = ''secret'', bucket = ''bucket''\<rparr>,
                postgresql = None\<rparr>"
    by (simp add: s3_server_def s3_env_def no_env_def loadConfiguration_def orElse_def)
  have v: "validateConfiguration (loadConfiguration (procEnv s3_server)) = Inr ()"
    unfolding l
    by (simp add: validateConfiguration_def validateS3Configuration_def missingNames_def
          orElse_def)
  have n: "providerName (doc_storageProvider png_document) = ''redis''"
    by (simp add: png_document_def)
  have f: "f_instance (factory (saveDocument (docsKey ''p'') png_document s3_server)) = None"
    by (simp add: factory_saveDocument s3_server_def initial_factory_def)
  have p: "provider (loadConfiguration (procEnv s3_server)) = ''s3''"
    unfolding l by simp
  have ne: "providerName (doc_storageProvider png_document)
              \<noteq> provider (loadConfiguration (procEnv s3_server))"
    unfolding n p by simp
  have a: "AdapterUpload \<notin> set [RedisSet (docsKey ''p'')]" by simp
  from p v png_add a f ne show ?thesis by blast
qed

section \<open>Document deletion\<close>

lemma docsOf_removeDocument:
  "docsOf (redis (removeDocument key i srv)) key
     = filter (\<lambda>doc. doc_id doc \<noteq> i) (docsOf (redis srv) key)"
  by (simp add: removeDocument_def docsOf_def)

lemma docsOf_factory_upd: "docsOf (redis (srv\<lparr>factory := f\<rparr>)) key = docsOf (redis srv) key"
  by simp

lemma find_Some_mem: "find P xs = Some x \<Longrightarrow> x \<in> set xs \<and> P x"
  by (induction xs) (auto split: if_splits)

lemma documents_delete_external:
  assumes "pid \<noteq> []" "i \<noteq> []"
    and "find (\<lambda>doc. doc_id doc = i) (docsOf (redis srv) (docsKey pid)) = Some d"
    and "doc_storageProvider d \<noteq> Redis" "doc_storageKey d = Some k" "k \<noteq> []"
  shows "documents_delete backend (Some pid) (Some i) srv =
           (case getAdapter (factory srv) None (procEnv srv) of
              (Inl e, f') \<Rightarrow>
                (ErrorResponse 500 ''Failed to delete document from external storage'',
                 srv\<lparr>factory := f'\<rparr>, [])
            | (Inr storageAdapter, f') \<Rightarrow>
                (case adapter_delete storageAdapter backend k of
                   Inl e \<Rightarrow>
                     (ErrorResponse 500 ''Failed to delete document from external storage'',
                      srv\<lparr>factory := f'\<rparr>, [AdapterDelete k])
                 | Inr u \<Rightarrow>
                     (SuccessResponse, removeDocument (docsKey pid) i (srv\<lparr>factory := f'\<rparr>),
                      [AdapterDelete k, RedisSet (docsKey pid)])))"
  using assms by (simp add: documents_delete_def truthy_def orElse_def split: prod.splits sum.splits)

text \<open>
  Claim C8. For every delete request on a document of the post that is stored in an
  external backend (its provider is not \<open>redis\<close> and it has a storage key), the metadata
  is removed from the post's list if and only if the backend delete succeeds: when
  \<open>getAdapter\<close> returns an adapter and its \<open>delete\<close> returns, the answer is success and
  the list is the old list without the entries of that id; when the adapter's \<open>delete\<close>
  raises (or no adapter can be had), the answer is the error of status 500 and Redis is
  unchanged, the entry still in the list.
\<close>

theorem documents_delete_safe:
  assumes "pid \<noteq> []" "i \<noteq> []"
    and "find (\<lambda>doc. doc_id doc = i) (docsOf (redis srv) (docsKey pid)) = Some d"
    and "doc_storageProvider d \<noteq> Redis" "doc_storageKey d = Some k" "k \<noteq> []"
  shows "((\<exists>a. fst (getAdapter (factory srv) None (procEnv srv)) = Inr a
              \<and> adapter_delete a backend k = Inr ())
          \<longrightarrow> fst (documents_delete backend (Some pid) (Some i) srv) = SuccessResponse
              \<and> docsOf (redis (fst (snd (documents_delete backend (Some pid) (Some i) srv))))
                   (docsKey pid)
                  = filter (\<lambda>doc. doc_id doc \<noteq> i) (docsOf (redis srv) (docsKey pid))
              \<and> d \<notin> set (docsOf (redis (fst (snd (documents_delete backend (Some pid) (Some i) srv))))
                            (docsKey pid)))
       \<and> (\<not> (\<exists>a. fst (getAdapter (factory srv) None (procEnv srv)) = Inr a
                \<and> adapter_delete a backend k = Inr ())
          \<longrightarrow> fst (documents_delete backend (Some pid) (Some i) srv)
                = ErrorResponse 500 ''Failed to delete document from external storage''
              \<and> redis (fst (snd (documents_delete backend (Some pid) (Some i) srv))) = redis srv
              \<and> d \<in> set (docsOf (redis (fst (snd (documents_delete backend (Some pid) (Some i) srv))))
                            (docsKey pid)))"
proof -
  note eq = documents_delete_external [OF assms, of backend]
  have mem: "d \<in> set (docsOf (redis srv) (docsKey pid))" and did: "doc_id d = i"
    using find_Some_mem [OF assms(3)] by simp_all
  obtain r f' where g: "getAdapter (factory srv) None (procEnv srv) = (r, f')"
    by (cases "getAdapter (factory srv) None (procEnv srv)")
  show ?thesis
  proof (cases r)
    case (Inl e)
    then show ?thesis using eq g mem by simp
  next
    case (Inr a)
    show ?thesis
    proof (cases "adapter_delete a backend k")
      case (Inl e)
      then show ?thesis using eq g \<open>r = Inr a\<close> mem by simp
    next
      case ok: (Inr u)
      have res: "documents_delete backend (Some pid) (Some i) srv
                   = (SuccessResponse, removeDocument (docsKey pid) i (srv\<lparr>factory := f'\<rparr>),
                      [AdapterDelete k, RedisSet (docsKey pid)])"
        using eq g \<open>r = Inr a\<close> ok by simp
      have ds: "docsOf (redis (removeDocument (docsKey pid) i (srv\<lparr>factory := f'\<rparr>))) (docsKey pid)
                  = filter (\<lambda>doc. doc_id doc \<noteq> i) (docsOf (redis srv) (docsKey pid))"
        unfolding docsOf_removeDocument by simp
      show ?thesis
        unfolding res using g \<open>r = Inr a\<close> ok ds did by simp
    qed
  qed
qed


lemma s3_getAdapter:
  "fst (getAdapter (factory s3_document_server) None (procEnv s3_document_server))
     = Inr (S3StorageAdapter ''us-east-1'' ''bucket'' True)"
  by (simp add: s3_document_server_def s3_server_def getAdapter_def initial_factory_def
        loadConfiguration_def validateConfiguration_def validateS3Configuration_def
        missingNames_def orElse_def createAdapter_def new_S3StorageAdapter_def no_env_def
        s3_env_def Let_def)

lemma s3_document_server_docs:
  "docsOf (redis s3_document_server) (docsKey ''p'') = [s3_document]"
  by (simp add: s3_document_server_def docsOf_def)

theorem documents_delete_safe_witness:
  "fst (documents_delete (always BackendFails) (Some ''p'') (Some ''doc_2'') s3_document_server)
     = ErrorResponse 500 ''Failed to delete document from external storage''
   \<and> s3_document \<in> set (docsOf (redis (fst (snd (documents_delete (always BackendFails)
                                 (Some ''p'') (Some ''doc_2'') s3_document_server)))) (docsKey ''p''))
   \<and> fst (documents_delete (always BackendOk) (Some ''p'') (Some ''doc_2'') s3_document_server)
     = SuccessResponse
   \<and> s3_document \<notin> set (docsOf (redis (fst (snd (documents_delete (always BackendOk)
                                 (Some ''p'') (Some ''doc_2'') s3_document_server)))) (docsKey ''p''))"
proof -
  have f: "find (\<lambda>doc. doc_id doc = ''doc_2'') (docsOf (redis s3_document_server) (docsKey ''p''))
             = Some s3_document"
    unfolding s3_document_server_docs by (simp add: s3_document_def)
  have p: "doc_storageProvider s3_document \<noteq> Redis" "doc_storageKey s3_document = Some ''k1''"
    by (simp_all add: s3_document_def)
  have n: "''p'' \<noteq> []" "''doc_2'' \<noteq> []" "''k1'' \<noteq> []" by simp_all
  have bad: "\<not> (\<exists>a. fst (getAdapter (factory s3_document_server) None (procEnv s3_document_server)) = Inr a
                   \<and> adapter_delete a (always BackendFails) ''k1'' = Inr ())"
    unfolding s3_getAdapter by (simp add: always_def)
  have good: "\<exists>a. fst (getAdapter (factory s3_document_server) None (procEnv s3_document_server)) = Inr a
                   \<and> adapter_delete a (always BackendOk) ''k1'' = Inr ()"
    unfolding s3_getAdapter by (simp add: always_def)
  show ?thesis
    using documents_delete_safe [OF n(1) n(2) f p(1) p(2) n(3), of "always BackendFails"]
      documents_delete_safe [OF n(1) n(2) f p(1) p(2) n(3), of "always BackendOk"]
      bad good
    by blast
qed

section \<open>The analysis endpoint\<close>

lemma analysisErrorResponse_not_429: "analysisErrorResponse msg \<noteq> ErrorResponse 429 m"
  by (simp add: analysisErrorResponse_def Let_def)

lemma counters_cachePut: "counters (cachePut k a r) = counters r"
  by (simp add: cachePut_def)

lemma analyzeAllowed_keeps:
  "counters (redis (fst (snd (analyzeAllowed hashOf gen parse body srvA)))) = counters (redis srvA)
   \<and> fst (analyzeAllowed hashOf gen parse body srvA) \<noteq> ErrorResponse 429 m"
  by (simp add: analyzeAllowed_def Let_def analysisErrorResponse_not_429 counters_cachePut
        split: option.splits sum.splits)

text \<open>
  Claim C1. For every request to the analysis endpoint that has a post and a user: if the
  stored counter for (user, current UTC day) is at or above 100, the request is rejected
  with the quota error of status 429, nothing is written (the counter is not incremented)
  and nothing else happens (no AI call); otherwise the first effects of the request are
  the increment of the counter by 1 and its expiry, before anything the AI call does, the
  counter ends one higher, and the request is not rejected for quota. In particular a
  request that finds 99 and brings the count to exactly 100 is allowed.
\<close>

theorem analyze_rate_limit:
  assumes "truthy postId" and "username = Some u" and "u \<noteq> []"
  shows "(countOf (redis srv) (rateLimitKey u today) \<ge> 100
          \<longrightarrow> analyze hashOf today secs gen parse postId username body srv
                = (ErrorResponse 429 QUOTA_MESSAGE, srv, []))
       \<and> (countOf (redis srv) (rateLimitKey u today) < 100
          \<longrightarrow> (\<exists>tr. snd (snd (analyze hashOf today secs gen parse postId username body srv))
                       = [RedisIncrBy (rateLimitKey u today) 1, RedisExpire (rateLimitKey u today) secs]
                           @ tr)
              \<and> counters (redis (fst (snd (analyze hashOf today secs gen parse postId username body srv))))
                   (rateLimitKey u today)
                  = Some (countOf (redis srv) (rateLimitKey u today) + 1)
              \<and> (\<forall>m. fst (analyze hashOf today secs gen parse postId username body srv)
                        \<noteq> ErrorResponse 429 m))"
proof (intro conjI impI)
  assume "countOf (redis srv) (rateLimitKey u today) \<ge> 100"
  then show "analyze hashOf today secs gen parse postId username body srv
                = (ErrorResponse 429 QUOTA_MESSAGE, srv, [])"
    using assms by (simp add: analyze_def truthy_def orElse_def RATE_LIMIT_def)
next
  assume lt: "countOf (redis srv) (rateLimitKey u today) < 100"
  define srvA where
    "srvA = srv\<lparr>redis := incrAndExpire (rateLimitKey u today) secs (redis srv)\<rparr>"
  have eq: "analyze hashOf today secs gen parse postId username body srv
              = (fst (analyzeAllowed hashOf gen parse body srvA),
                 fst (snd (analyzeAllowed hashOf gen parse body srvA)),
                 [RedisIncrBy (rateLimitKey u today) 1, RedisExpire (rateLimitKey u today) secs]
                   @ snd (snd (analyzeAllowed hashOf gen parse body srvA)))"
    using assms lt by (simp add: analyze_def truthy_def orElse_def RATE_LIMIT_def srvA_def Let_def)
  have c1: "counters (redis srvA) (rateLimitKey u today)
              = Some (countOf (redis srv) (rateLimitKey u today) + 1)"
    by (simp add: srvA_def incrAndExpire_def)
  show "\<exists>tr. snd (snd (analyze hashOf today secs gen parse postId username body srv))
               = [RedisIncrBy (rateLimitKey u today) 1, RedisExpire (rateLimitKey u today) secs] @ tr"
    unfolding eq by simp
  show "counters (redis (fst (snd (analyze hashOf today secs gen parse postId username body srv))))
                   (rateLimitKey u today)
                  = Some (countOf (redis srv) (rateLimitKey u today) + 1)"
    unfolding eq using analyzeAllowed_keeps [of hashOf gen parse body srvA] c1 by simp
  show "\<forall>m. fst (analyze hashOf today secs gen parse postId username body srv) \<noteq> ErrorResponse 429 m"
    unfolding eq using analyzeAllowed_keeps [of hashOf gen parse body srvA] by simp
qed


lemma attempt_events: "e \<in> set (snd (attempt env n)) \<Longrightarrow> isGeminiCall e"
  by (auto simp: attempt_def split: sum.splits call_outcome.splits)

lemma analyzeImage_events:
  "e \<in> set (snd (analyzeImage env b f n)) \<Longrightarrow> isGeminiCall e \<or> isSleep e \<or> e = FallbackCreated"
proof (induction env b f n rule: analyzeImage.induct)
  case (1 env b f n)
  show ?case
  proof (cases "fst (attempt env n)")
    case (Inr r)
    then show ?thesis
      using analyzeImage_success [OF Inr, of b f] "1.prems" attempt_events [of e env n] by auto
  next
    case (Inl m)
    show ?thesis
    proof (cases "isRetryableError m \<and> n < MAX_RETRIES")
      case True
      then show ?thesis
        using analyzeImage_retry [OF Inl, of b f] "1.prems" "1.IH"(2) [OF Inl True]
          attempt_events [of e env n]
        by auto
    next
      case False
      then show ?thesis
        using analyzeImage_last [OF Inl False, of b f] "1.prems" attempt_events [of e env n]
        by auto
    qed
  qed
qed

lemma analyzePDF_events:
  "e \<in> set (snd (analyzePDF env b f n)) \<Longrightarrow> isGeminiCall e \<or> isSleep e \<or> e = FallbackCreated"
proof (induction env b f n rule: analyzePDF.induct)
  case (1 env b f n)
  show ?case
  proof (cases "fst (attempt env n)")
    case (Inr r)
    then show ?thesis
      using analyzePDF_success [OF Inr, of b f] "1.prems" attempt_events [of e env n] by auto
  next
    case (Inl m)
    show ?thesis
    proof (cases "isRetryableError m \<and> n < MAX_RETRIES")
      case True
      then show ?thesis
        using analyzePDF_retry [OF Inl, of b f] "1.prems" "1.IH"(2) [OF Inl True]
          attempt_events [of e env n]
        by auto
    next
      case False
      then show ?thesis
        using analyzePDF_last [OF Inl False, of b f] "1.prems" attempt_events [of e env n]
        by auto
    qed
  qed
qed

lemma analyzeDocument_events:
  "e \<in> set (snd (analyzeDocument env fd ft fn))
     \<Longrightarrow> isGeminiCall e \<or> isSleep e \<or> e = FallbackCreated"
  using analyzeImage_events [of e env fd fn 0] analyzePDF_events [of e env fd fn 0]
  by (auto simp: analyzeDocument_def Let_def split: sum.splits if_splits)

lemma analyzeDocument_no_RedisSet: "RedisSet k \<notin> set (snd (analyzeDocument env fd ft fn))"
  using analyzeDocument_events [of "RedisSet k" env fd ft fn] by auto

lemma isFallback_fallback: "isFallback (createFallbackResponse f k m)"
  unfolding isFallback_def createFallbackResponse_def FALLBACK_SUMMARY_def by simp

lemma analyzeAllowed_miss:
  assumes "an_fileData body = Some fd" "fd \<noteq> []" "an_fileType body = Some ft" "ft \<noteq> []"
    and "an_fileName body = Some fn" "fn \<noteq> []" "base64Data_of fd \<noteq> []"
    and "cache (redis srvA) (cacheKeyOf (hashOf (base64Data_of fd))) = None"
    and "fst (analyzeDocument \<lparr>apiKey = gemini_api_key (redis srvA), generateContent = gen,
                               jsonParse = parse\<rparr> fd ft fn) = Inr a"
  shows "analyzeAllowed hashOf gen parse body srvA =
           (if \<not> isFallback a
            then (AnalysisResponse (description a) (summary a),
                  srvA\<lparr>redis := cachePut (cacheKeyOf (hashOf (base64Data_of fd))) a (redis srvA)\<rparr>,
                  snd (analyzeDocument \<lparr>apiKey = gemini_api_key (redis srvA), generateContent = gen,
                                        jsonParse = parse\<rparr> fd ft fn)
                    @ [RedisSet (cacheKeyOf (hashOf (base64Data_of fd))),
                       RedisExpire (cacheKeyOf (hashOf (base64Data_of fd))) CACHE_TTL_SECONDS])
            else (AnalysisResponse (description a) (summary a), srvA,
                  snd (analyzeDocument \<lparr>apiKey = gemini_api_key (redis srvA), generateContent = gen,
                                        jsonParse = parse\<rparr> fd ft fn)))"
  using assms by (simp add: analyzeAllowed_def truthy_def orElse_def Let_def)



lemma analyze_miss:
  assumes "truthy postId" and "username = Some u" and "u \<noteq> []"
    and "countOf (redis srv) (rateLimitKey u today) < 100"
    and "an_fileData body = Some fd" and "fd \<noteq> []"
    and "an_fileType body = Some ft" and "ft \<noteq> []"
    and "an_fileName body = Some fn" and "fn \<noteq> []"
    and "base64Data_of fd \<noteq> []"
    and "cache (redis srv) (cacheKeyOf (hashOf (base64Data_of fd))) = None"
    and "analyzeDocument \<lparr>apiKey = gemini_api_key (redis srv), generateContent = gen,
                          jsonParse = parse\<rparr> fd ft fn = (Inr a, tr)"
  shows "analyze hashOf today secs gen parse postId username body srv =
           (AnalysisResponse (description a) (summary a),
            (if \<not> isFallback a
             then srv\<lparr>redis := cachePut (cacheKeyOf (hashOf (base64Data_of fd))) a
                                  (incrAndExpire (rateLimitKey u today) secs (redis srv))\<rparr>
             else srv\<lparr>redis := incrAndExpire (rateLimitKey u today) secs (redis srv)\<rparr>),
            [RedisIncrBy (rateLimitKey u today) 1, RedisExpire (rateLimitKey u today) secs] @ tr
              @ (if \<not> isFallback a
                 then [RedisSet (cacheKeyOf (hashOf (base64Data_of fd))),
                       RedisExpire (cacheKeyOf (hashOf (base64Data_of fd))) CACHE_TTL_SECONDS]
                 else []))"
proof -
  define srvB where
    "srvB = srv\<lparr>redis := incrAndExpire (rateLimitKey u today) secs (redis srv)\<rparr>"
  have k1: "gemini_api_key (redis srvB) = gemini_api_key (redis srv)"
    and c1: "cache (redis srvB) = cache (redis srv)"
    by (simp_all add: srvB_def incrAndExpire_def)
  have eq: "analyze hashOf today secs gen parse postId username body srv
              = (fst (analyzeAllowed hashOf gen parse body srvB),
                 fst (snd (analyzeAllowed hashOf gen parse body srvB)),
                 [RedisIncrBy (rateLimitKey u today) 1, RedisExpire (rateLimitKey u today) secs]
                   @ snd (snd (analyzeAllowed hashOf gen parse body srvB)))"
    using assms(1-4)
    by (simp add: analyze_def truthy_def orElse_def RATE_LIMIT_def srvB_def Let_def)
  have miss: "cache (redis srvB) (cacheKeyOf (hashOf (base64Data_of fd))) = None"
    using assms(12) c1 by simp
  have a1: "fst (analyzeDocument \<lparr>apiKey = gemini_api_key (redis srvB), generateContent = gen,
                               jsonParse = parse\<rparr> fd ft fn) = Inr a"
    and t1: "snd (analyzeDocument \<lparr>apiKey = gemini_api_key (redis srvB), generateContent = gen,
                               jsonParse = parse\<rparr> fd ft fn) = tr"
    using assms(13) by (simp_all add: k1)
  note al = analyzeAllowed_miss [where hashOf = hashOf and gen = gen and parse = parse
      and srvA = srvB, OF assms(5-11) miss a1, unfolded t1]
  show ?thesis
    unfolding eq al by (simp add: srvB_def)
qed

text \<open>
  Claim C2, as amended. On a cache miss in the analysis endpoint, after the analysis
  completes, the result is written to the cache under \<open>analysis:HASH\<close>, with the time
  to live of 7 days (604,800 seconds), if and only if its summary contains neither
  \<open>Auto-analysis unavailable\<close> nor \<open>Please add details manually\<close>; a fallback result
  contains both and is never written to the cache, and the cache is then unchanged.
\<close>

theorem analyze_cache_write:
  assumes "truthy postId" and "username = Some u" and "u \<noteq> []"
    and "countOf (redis srv) (rateLimitKey u today) < 100"
    and "an_fileData body = Some fd" and "fd \<noteq> []"
    and "an_fileType body = Some ft" and "ft \<noteq> []"
    and "an_fileName body = Some fn" and "fn \<noteq> []"
    and "base64Data_of fd \<noteq> []"
    and "cache (redis srv) (cacheKeyOf (hashOf (base64Data_of fd))) = None"
  shows "\<exists>a. fst (analyzeDocument \<lparr>apiKey = gemini_api_key (redis srv), generateContent = gen,
                                    jsonParse = parse\<rparr> fd ft fn) = Inr a
           \<and> fst (analyze hashOf today secs gen parse postId username body srv)
               = AnalysisResponse (description a) (summary a)
           \<and> (RedisSet (cacheKeyOf (hashOf (base64Data_of fd)))
                  \<in> set (snd (snd (analyze hashOf today secs gen parse postId username body srv)))
                \<longleftrightarrow> \<not> isFallback a)
           \<and> (\<not> isFallback a
                \<longrightarrow> cache (redis (fst (snd (analyze hashOf today secs gen parse postId username body srv))))
                      (cacheKeyOf (hashOf (base64Data_of fd))) = Some a
                    \<and> expiry (redis (fst (snd (analyze hashOf today secs gen parse postId username body srv))))
                      (cacheKeyOf (hashOf (base64Data_of fd))) = Some 604800)
           \<and> (isFallback a
                \<longrightarrow> cache (redis (fst (snd (analyze hashOf today secs gen parse postId username body srv))))
                      = cache (redis srv))
           \<and> (FallbackCreated
                  \<in> set (snd (snd (analyze hashOf today secs gen parse postId username body srv)))
                \<longrightarrow> isFallback a)"
proof -
  define ck where "ck = cacheKeyOf (hashOf (base64Data_of fd))"
  define env where "env = \<lparr>apiKey = gemini_api_key (redis srv), generateContent = gen,
                             jsonParse = parse\<rparr>"
  obtain a where a: "fst (analyzeDocument env fd ft fn) = Inr a"
    and prov: "(\<exists>k. fst (attempt env k) = Inr a) \<and> FallbackCreated \<notin> set (snd (analyzeDocument env fd ft fn))
        \<or> a = createFallbackResponse fn (detectFileType fd ft) []
          \<and> FallbackCreated \<in> set (snd (analyzeDocument env fd ft fn))"
    using analyzeDocument_result [of env fd ft fn] by blast
  have fb: "FallbackCreated \<in> set (snd (analyzeDocument env fd ft fn)) \<Longrightarrow> isFallback a"
    using prov isFallback_fallback [of fn "detectFileType fd ft" "[]"] by auto
  have pair: "analyzeDocument env fd ft fn = (Inr a, snd (analyzeDocument env fd ft fn))"
    using a by (cases "analyzeDocument env fd ft fn") simp
  note run = analyze_miss [where hashOf = hashOf and gen = gen and parse = parse and secs = secs,
      OF assms pair [unfolded env_def], folded env_def ck_def]
  have nors: "RedisSet ck \<notin> set (snd (analyzeDocument env fd ft fn))"
    by (rule analyzeDocument_no_RedisSet)
  show ?thesis
  proof (cases "isFallback a")
    case True
    show ?thesis
      unfolding run using a True nors
      by (auto simp: env_def ck_def incrAndExpire_def)
  next
    case False
    then have "FallbackCreated \<notin> set (snd (analyzeDocument env fd ft fn))"
      using fb by blast
    then show ?thesis
      unfolding run using a False
      by (auto simp: env_def ck_def cachePut_def CACHE_TTL_SECONDS_def)
  qed
qed

lemma base64_AAAA: "base64Data_of ''AAAA'' = ''AAAA''"
  by (simp add: base64Data_of_def)

lemma detect_png_AAAA: "detectFileType ''AAAA'' ''image/png'' = Image"
  by code_simp

lemma png_analysis:
  assumes "d \<noteq> []" and "s \<noteq> []"
  shows "analyzeDocument \<lparr>apiKey = Some ''k'', generateContent = always (CallResolves ''{}''),
                          jsonParse = answers d s\<rparr> ''AAAA'' ''image/png'' ''a.png''
           = (Inr \<lparr>description = sanitizeText (take 100 d), summary = sanitizeText (take 500 s)\<rparr>,
              [GeminiCall 0])"
proof -
  have at: "attempt \<lparr>apiKey = Some ''k'', generateContent = always (CallResolves ''{}''),
                     jsonParse = answers d s\<rparr> 0
              = (Inr \<lparr>description = sanitizeText (take 100 d), summary = sanitizeText (take 500 s)\<rparr>,
                 [GeminiCall 0])"
    using assms
    by (simp add: attempt_def getModel_def always_def parseGeminiResponse_def answers_def)
  show ?thesis
    using analyzeImage_success [of "\<lparr>apiKey = Some ''k'', generateContent = always (CallResolves ''{}''),
                     jsonParse = answers d s\<rparr>" 0 _ "''AAAA''" "''a.png''"] at detect_png_AAAA
    by (simp add: analyzeDocument_def)
qed

lemma sanitize_bill: "sanitizeText ''bill'' = ''bill''"
  by (simp add: sanitizeText_def strippedBySanitize_def)

lemma sanitize_total: "sanitizeText ''total 5'' = ''total 5''"
  by (simp add: sanitizeText_def strippedBySanitize_def)

lemma sanitize_please:
  "sanitizeText ''Please add details manually'' = ''Please add details manually''"
  by (simp add: sanitizeText_def strippedBySanitize_def)

lemma isFallback_please:
  "isFallback \<lparr>description = ''bill'', summary = ''Please add details manually''\<rparr>"
  by (simp add: isFallback_def)

lemma not_isFallback_total: "\<not> isFallback \<lparr>description = ''bill'', summary = ''total 5''\<rparr>"
  by (simp add: isFallback_def)

lemma counted_server_facts:
  "countOf (redis (counted_server n)) (rateLimitKey ''u'' ''2024-01-01'') = n"
  "cache (redis (counted_server n)) k = None"
  "gemini_api_key (redis (counted_server n)) = Some ''k''"
  by (simp_all add: counted_server_def countOf_def empty_redis_def)

lemma png_request_facts:
  "an_fileData png_request = Some ''AAAA''" "an_fileType png_request = Some ''image/png''"
  "an_fileName png_request = Some ''a.png''"
  by (simp_all add: png_request_def)


theorem analyze_rate_limit_witness:
  "analyze (always ''h'') ''2024-01-01'' 60 (always (CallResolves ''{}'')) (answers ''bill'' ''total 5'')
       (Some ''p'') (Some ''u'') png_request (counted_server 100)
     = (ErrorResponse 429 QUOTA_MESSAGE, counted_server 100, [])
   \<and> counters (redis (fst (snd (analyze (always ''h'') ''2024-01-01'' 60
                                    (always (CallResolves ''{}'')) (answers ''bill'' ''total 5'')
                                    (Some ''p'') (Some ''u'') png_request (counted_server 99)))))
       (rateLimitKey ''u'' ''2024-01-01'') = Some 100"
proof -
  have t: "truthy (Some ''p'')" by (simp add: truthy_def)
  have u: "''u'' \<noteq> []" by simp
  show ?thesis
    using analyze_rate_limit [OF t refl u, of "counted_server 100" "''2024-01-01''" "always ''h''" 60
            "always (CallResolves ''{}'')" "answers ''bill'' ''total 5''" png_request]
          analyze_rate_limit [OF t refl u, of "counted_server 99" "''2024-01-01''" "always ''h''" 60
            "always (CallResolves ''{}'')" "answers ''bill'' ''total 5''" png_request]
    by (simp add: counted_server_facts)
qed

theorem analyze_cache_write_witness:
  "cache (redis (fst (snd (analyze (always ''h'') ''2024-01-01'' 60
                             (always (CallResolves ''{}'')) (answers ''bill'' ''total 5'')
                             (Some ''p'') (Some ''u'') png_request (counted_server 0)))))
       (cacheKeyOf ''h'') = Some \<lparr>description = ''bill'', summary = ''total 5''\<rparr>
   \<and> expiry (redis (fst (snd (analyze (always ''h'') ''2024-01-01'' 60
                             (always (CallResolves ''{}'')) (answers ''bill'' ''total 5'')
                             (Some ''p'') (Some ''u'') png_request (counted_server 0)))))
       (cacheKeyOf ''h'') = Some 604800"
proof -
  have t: "truthy (Some ''p'')" by (simp add: truthy_def)
  have n: "''u'' \<noteq> []" "''AAAA'' \<noteq> []" "''image/png'' \<noteq> []" "''a.png'' \<noteq> []" by simp_all
  have c: "countOf (redis (counted_server 0)) (rateLimitKey ''u'' ''2024-01-01'') < 100"
    by (simp add: counted_server_facts)
  have b: "base64Data_of ''AAAA'' \<noteq> []" by (simp add: base64_AAAA)
  have m: "cache (redis (counted_server 0)) (cacheKeyOf (always ''h'' (base64Data_of ''AAAA''))) = None"
    by (rule counted_server_facts)
  have h: "always ''h'' (base64Data_of ''AAAA'') = ''h''" by (simp add: always_def)
  have d: "fst (analyzeDocument \<lparr>apiKey = gemini_api_key (redis (counted_server 0)),
                  generateContent = always (CallResolves ''{}''),
                  jsonParse = answers ''bill'' ''total 5''\<rparr> ''AAAA'' ''image/png'' ''a.png'')
             = Inr \<lparr>description = ''bill'', summary = ''total 5''\<rparr>"
    using png_analysis [of "''bill''" "''total 5''"]
    by (simp add: counted_server_facts sanitize_bill sanitize_total)
  from analyze_cache_write [where hashOf = "always ''h''" and secs = 60
         and gen = "always (CallResolves ''{}'')" and parse = "answers ''bill'' ''total 5''",
         OF t refl n(1) c png_request_facts(1) n(2) png_request_facts(2) n(3)
         png_request_facts(3) n(4) b m]
  show ?thesis
    unfolding d h using not_isFallback_total by auto
qed

text \<open>
  Claim C2 as the specification states it fails: a response of the model whose summary is
  \<open>Please add details manually\<close> is validated and returned, no fallback result is
  created, and yet nothing is written to the cache.
\<close>

theorem analyze_cache_write_counterexample:
  "analyzeDocument \<lparr>apiKey = Some ''k'', generateContent = always (CallResolves ''{}''),
                     jsonParse = answers ''bill'' ''Please add details manually''\<rparr>
       ''AAAA'' ''image/png'' ''a.png''
     = (Inr \<lparr>description = ''bill'', summary = ''Please add details manually''\<rparr>, [GeminiCall 0])
   \<and> FallbackCreated \<notin> set [GeminiCall 0]
   \<and> analyze (always ''h'') ''2024-01-01'' 60 (always (CallResolves ''{}''))
         (answers ''bill'' ''Please add details manually'') (Some ''p'') (Some ''u'') png_request
         (counted_server 0)
     = (AnalysisResponse ''bill'' ''Please add details manually'',
        (counted_server 0)\<lparr>redis := incrAndExpire (rateLimitKey ''u'' ''2024-01-01'') 60
                                       (redis (counted_server 0))\<rparr>,
        [RedisIncrBy (rateLimitKey ''u'' ''2024-01-01'') 1,
         RedisExpire (rateLimitKey ''u'' ''2024-01-01'') 60, GeminiCall 0])
   \<and> RedisSet (cacheKeyOf ''h'')
       \<notin> set [RedisIncrBy (rateLimitKey ''u'' ''2024-01-01'') 1,
                RedisExpire (rateLimitKey ''u'' ''2024-01-01'') 60, GeminiCall 0]
   \<and> cache (redis ((counted_server 0)\<lparr>redis := incrAndExpire (rateLimitKey ''u'' ''2024-01-01'') 60
                                                  (redis (counted_server 0))\<rparr>))
       (cacheKeyOf ''h'') = None"
proof -
  have t: "truthy (Some ''p'')" by (simp add: truthy_def)
  have n: "''u'' \<noteq> []" "''AAAA'' \<noteq> []" "''image/png'' \<noteq> []" "''a.png'' \<noteq> []" by simp_all
  have c: "countOf (redis (counted_server 0)) (rateLimitKey ''u'' ''2024-01-01'') < 100"
    by (simp add: counted_server_facts)
  have b: "base64Data_of ''AAAA'' \<noteq> []" by (simp add: base64_AAAA)
  have m: "cache (redis (counted_server 0)) (cacheKeyOf (always ''h'' (base64Data_of ''AAAA''))) = None"
    by (rule counted_server_facts)
  have d0: "analyzeDocument \<lparr>apiKey = Some ''k'', generateContent = always (CallResolves ''{}''),
                     jsonParse = answers ''bill'' ''Please add details manually''\<rparr>
       ''AAAA'' ''image/png'' ''a.png''
     = (Inr \<lparr>description = ''bill'', summary = ''Please add details manually''\<rparr>, [GeminiCall 0])"
    using png_analysis [of "''bill''" "''Please add details manually''"]
    by (simp add: sanitize_bill sanitize_please)
  have d: "analyzeDocument \<lparr>apiKey = gemini_api_key (redis (counted_server 0)),
                  generateContent = always (CallResolves ''{}''),
                  jsonParse = answers ''bill'' ''Please add details manually''\<rparr>
               ''AAAA'' ''image/png'' ''a.png''
             = (Inr \<lparr>description = ''bill'', summary = ''Please add details manually''\<rparr>,
                [GeminiCall 0])"
    using d0 by (simp add: counted_server_facts)
  have run: "analyze (always ''h'') ''2024-01-01'' 60 (always (CallResolves ''{}''))
         (answers ''bill'' ''Please add details manually'') (Some ''p'') (Some ''u'') png_request
         (counted_server 0)
     = (AnalysisResponse ''bill'' ''Please add details manually'',
        (counted_server 0)\<lparr>redis := incrAndExpire (rateLimitKey ''u'' ''2024-01-01'') 60
                                       (redis (counted_server 0))\<rparr>,
        [RedisIncrBy (rateLimitKey ''u'' ''2024-01-01'') 1,
         RedisExpire (rateLimitKey ''u'' ''2024-01-01'') 60, GeminiCall 0])"
    using analyze_miss [where hashOf = "always ''h''" and secs = 60,
         OF t refl n(1) c png_request_facts(1) n(2) png_request_facts(2) n(3)
         png_request_facts(3) n(4) b m d] isFallback_please
    by simp
  have nc: "cache (redis ((counted_server 0)\<lparr>redis := incrAndExpire (rateLimitKey ''u'' ''2024-01-01'') 60
                                                  (redis (counted_server 0))\<rparr>))
       (cacheKeyOf ''h'') = None"
    by (simp add: incrAndExpire_def counted_server_facts)
  have ev: "FallbackCreated \<notin> set [GeminiCall 0]"
    "RedisSet (cacheKeyOf ''h'')
       \<notin> set [RedisIncrBy (rateLimitKey ''u'' ''2024-01-01'') 1,
                RedisExpire (rateLimitKey ''u'' ''2024-01-01'') 60, GeminiCall 0]"
    by simp_all
  from d0 ev(1) run ev(2) nc show ?thesis by blast
qed

end
